theory Spec2Isabelle
  imports Complex_Main "HOL-Library.Word"
begin

section \<open>JavaScript numbers\<close>

text \<open>
  Every \<^verbatim>\<open>number\<close> of the TypeScript sources is an IEEE double. The model keeps the
  three special values a double can take and computes exactly on the finite ones:
  rounding and overflow are not modelled, the results of dividing by zero and of
  arithmetic on \<^verbatim>\<open>NaN\<close> and the infinities are. There is one zero.

  The statements below are chosen so that this difference does not decide them. An
  equation between numbers either holds between the same expressions of the source
  on both sides, or is about values that doubles compute exactly (small integers,
  \<^verbatim>\<open>NaN\<close>, the infinities). An inequality keeps a margin far above the rounding
  error of a double, or follows from the order of the operands alone, which rounding
  to nearest respects. Where a run could overflow in doubles, the statement bounds
  its inputs below the overflow threshold \<open>2 ^ 1024\<close>.
\<close>

datatype jsnum = Fin real | PInf | NInf | NaN

instantiation jsnum :: "{plus, minus, uminus, times, inverse, ord}"
begin

fun uminus_jsnum :: "jsnum \<Rightarrow> jsnum" where
  "uminus_jsnum (Fin a) = Fin (- a)"
| "uminus_jsnum PInf = NInf"
| "uminus_jsnum NInf = PInf"
| "uminus_jsnum NaN = NaN"

fun plus_jsnum :: "jsnum \<Rightarrow> jsnum \<Rightarrow> jsnum" where
  "plus_jsnum (Fin a) (Fin b) = Fin (a + b)"
| "plus_jsnum NaN _ = NaN"
| "plus_jsnum _ NaN = NaN"
| "plus_jsnum PInf NInf = NaN"
| "plus_jsnum NInf PInf = NaN"
| "plus_jsnum PInf _ = PInf"
| "plus_jsnum _ PInf = PInf"
| "plus_jsnum NInf _ = NInf"
| "plus_jsnum _ NInf = NInf"

definition minus_jsnum :: "jsnum \<Rightarrow> jsnum \<Rightarrow> jsnum" where
  "minus_jsnum a b = a + (- b)"

fun times_jsnum :: "jsnum \<Rightarrow> jsnum \<Rightarrow> jsnum" where
  "times_jsnum (Fin a) (Fin b) = Fin (a * b)"
| "times_jsnum NaN _ = NaN"
| "times_jsnum _ NaN = NaN"
| "times_jsnum (Fin a) PInf = (if a = 0 then NaN else if 0 < a then PInf else NInf)"
| "times_jsnum (Fin a) NInf = (if a = 0 then NaN else if 0 < a then NInf else PInf)"
| "times_jsnum PInf (Fin b) = (if b = 0 then NaN else if 0 < b then PInf else NInf)"
| "times_jsnum NInf (Fin b) = (if b = 0 then NaN else if 0 < b then NInf else PInf)"
| "times_jsnum PInf PInf = PInf"
| "times_jsnum NInf NInf = PInf"
| "times_jsnum PInf NInf = NInf"
| "times_jsnum NInf PInf = NInf"

fun divide_jsnum :: "jsnum \<Rightarrow> jsnum \<Rightarrow> jsnum" where
  "divide_jsnum (Fin a) (Fin b) =
     (if b = 0 then (if a = 0 then NaN else if 0 < a then PInf else NInf)
      else Fin (a / b))"
| "divide_jsnum NaN _ = NaN"
| "divide_jsnum _ NaN = NaN"
| "divide_jsnum (Fin a) _ = Fin 0"
| "divide_jsnum PInf (Fin b) = (if 0 \<le> b then PInf else NInf)"
| "divide_jsnum NInf (Fin b) = (if 0 \<le> b then NInf else PInf)"
| "divide_jsnum _ _ = NaN"

definition inverse_jsnum :: "jsnum \<Rightarrow> jsnum" where
  "inverse_jsnum a = (Fin 1 div a)"

text \<open>The comparisons of JavaScript: every comparison with \<^verbatim>\<open>NaN\<close> is false.\<close>

fun less_jsnum :: "jsnum \<Rightarrow> jsnum \<Rightarrow> bool" where
  "less_jsnum (Fin a) (Fin b) = (a < b)"
| "less_jsnum NaN _ = False"
| "less_jsnum _ NaN = False"
| "less_jsnum _ NInf = False"
| "less_jsnum PInf _ = False"
| "less_jsnum _ _ = True"

fun less_eq_jsnum :: "jsnum \<Rightarrow> jsnum \<Rightarrow> bool" where
  "less_eq_jsnum (Fin a) (Fin b) = (a \<le> b)"
| "less_eq_jsnum NaN _ = False"
| "less_eq_jsnum _ NaN = False"
| "less_eq_jsnum NInf _ = True"
| "less_eq_jsnum _ PInf = True"
| "less_eq_jsnum _ _ = False"

instance ..

end

fun isFinite :: "jsnum \<Rightarrow> bool" where
  "isFinite (Fin a) = True"
| "isFinite _ = False"

text \<open>
  The functions of \<^verbatim>\<open>Math\<close> that the sources call. Square root, sine, cosine and
  arc cosine are the functions over the reals; an implementation returns a double
  close to their value, within the same bounds (\<open>- 1\<close> and 1 for sine and cosine).
\<close>

fun Math_min :: "jsnum \<Rightarrow> jsnum \<Rightarrow> jsnum" where
  "Math_min (Fin a) (Fin b) = Fin (min a b)"
| "Math_min NaN _ = NaN"
| "Math_min _ NaN = NaN"
| "Math_min NInf _ = NInf"
| "Math_min _ NInf = NInf"
| "Math_min PInf b = b"
| "Math_min a PInf = a"

fun Math_max :: "jsnum \<Rightarrow> jsnum \<Rightarrow> jsnum" where
  "Math_max (Fin a) (Fin b) = Fin (max a b)"
| "Math_max NaN _ = NaN"
| "Math_max _ NaN = NaN"
| "Math_max PInf _ = PInf"
| "Math_max _ PInf = PInf"
| "Math_max NInf b = b"
| "Math_max a NInf = a"

fun Math_sqrt :: "jsnum \<Rightarrow> jsnum" where
  "Math_sqrt (Fin a) = (if a < 0 then NaN else Fin (sqrt a))"
| "Math_sqrt PInf = PInf"
| "Math_sqrt _ = NaN"

fun Math_sin :: "jsnum \<Rightarrow> jsnum" where
  "Math_sin (Fin a) = Fin (sin a)"
| "Math_sin _ = NaN"

fun Math_cos :: "jsnum \<Rightarrow> jsnum" where
  "Math_cos (Fin a) = Fin (cos a)"
| "Math_cos _ = NaN"

fun Math_acos :: "jsnum \<Rightarrow> jsnum" where
  "Math_acos (Fin a) = (if - 1 \<le> a \<and> a \<le> 1 then Fin (arccos a) else NaN)"
| "Math_acos _ = NaN"

fun Math_floor :: "jsnum \<Rightarrow> jsnum" where
  "Math_floor (Fin a) = Fin (of_int \<lfloor>a\<rfloor>)"
| "Math_floor a = a"

text \<open>\<^verbatim>\<open>a % b\<close> on numbers: the remainder has the sign of the dividend.\<close>

fun js_rem :: "jsnum \<Rightarrow> jsnum \<Rightarrow> jsnum" where
  "js_rem (Fin a) (Fin b) =
     (if b = 0 then NaN
      else Fin (a - \<bar>b\<bar> * sgn a * of_int \<lfloor>\<bar>a\<bar> / \<bar>b\<bar>\<rfloor>))"
| "js_rem (Fin a) PInf = Fin a"
| "js_rem (Fin a) NInf = Fin a"
| "js_rem _ _ = NaN"

text \<open>A natural number (a loop index, a length, a byte) read as a number.\<close>

definition num :: "nat \<Rightarrow> jsnum" where
  "num n = Fin (real n)"

section \<open>Audio data and the spectrum reduction\<close>

text \<open>\<^verbatim>\<open>AudioData\<close> of \<^verbatim>\<open>types.ts\<close>; the frequency data is a \<^verbatim>\<open>Uint8Array\<close>.\<close>

record AudioData =
  frequencyData :: "8 word list"
  overallAmplitude :: jsnum
  bass :: jsnum
  mid :: jsnum
  treble :: jsnum

text \<open>The four running sums of the loop in \<^verbatim>\<open>analyse\<close> (sums of bytes, so exact).\<close>

record band_sums =
  sumAll :: nat
  bassSum :: nat
  midSum :: nat
  trebleSum :: nat

text \<open>\<^verbatim>\<open>Math.floor(bufferLength * 0.1)\<close> and \<^verbatim>\<open>Math.floor(bufferLength * 0.5)\<close>.\<close>

definition bassLimit :: "nat \<Rightarrow> nat" where
  "bassLimit bufferLength = nat \<lfloor>real bufferLength * 0.1\<rfloor>"

definition midLimit :: "nat \<Rightarrow> nat" where
  "midLimit bufferLength = nat \<lfloor>real bufferLength * 0.5\<rfloor>"

text \<open>
  The loop \<^verbatim>\<open>for (let i = 0; i < bufferLength; i++)\<close> of \<^verbatim>\<open>analyse\<close>, from index \<open>i\<close> on.
\<close>

function analyse_loop :: "8 word list \<Rightarrow> nat \<Rightarrow> nat \<Rightarrow> nat \<Rightarrow> band_sums \<Rightarrow> band_sums" where
  "analyse_loop dataArray bl ml i acc =
     (if i < length dataArray then
        (let v = unat (dataArray ! i);
             acc1 = acc\<lparr>sumAll := sumAll acc + v\<rparr>;
             acc2 = (if i < bl then acc1\<lparr>bassSum := bassSum acc1 + v\<rparr>
                     else if i < ml then acc1\<lparr>midSum := midSum acc1 + v\<rparr>
                     else acc1\<lparr>trebleSum := trebleSum acc1 + v\<rparr>)
         in analyse_loop dataArray bl ml (Suc i) acc2)
      else acc)"
  by pat_completeness auto
termination
  by (relation "measure (\<lambda>(dataArray, bl, ml, i, acc). length dataArray - i)") auto

declare analyse_loop.simps [simp del]

text \<open>
  One run of \<^verbatim>\<open>analyse\<close> on the bytes the analyser delivered: the sums, then the
  four divisions, none of them guarded.
\<close>

definition analyse :: "8 word list \<Rightarrow> AudioData" where
  "analyse dataArray =
     (let bufferLength = length dataArray;
          bl = bassLimit bufferLength;
          ml = midLimit bufferLength;
          s = analyse_loop dataArray bl ml 0
                \<lparr>sumAll = 0, bassSum = 0, midSum = 0, trebleSum = 0\<rparr>
      in \<lparr>frequencyData = dataArray,
          overallAmplitude = num (sumAll s) / num bufferLength,
          bass = num (bassSum s) / num bl,
          mid = num (midSum s) / num (ml - bl),
          treble = num (trebleSum s) / num (bufferLength - ml)\<rparr>)"

section \<open>Configuration, vectors and colours\<close>

text \<open>\<^verbatim>\<open>VisualizerMode\<close>, \<^verbatim>\<open>GeometryType\<close> and \<^verbatim>\<open>VisualConfig\<close> of \<^verbatim>\<open>types.ts\<close>.\<close>

datatype VisualizerMode = Orbit | Wave | Grid | Chaos | Ferrofluid | Surface

datatype GeometryType = Box | Sphere | Tetrahedron | Octahedron | Torus | Cone

record VisualConfig =
  mode :: VisualizerMode
  geometryType :: GeometryType
  primaryColor :: string
  secondaryColor :: string
  backgroundColor :: string
  particleSize :: jsnum
  rotationSpeed :: jsnum
  sensitivity :: jsnum
  bloomIntensity :: jsnum
  description :: string

text \<open>
  \<^verbatim>\<open>THREE.Vector2\<close>, \<^verbatim>\<open>THREE.Vector3\<close> and \<^verbatim>\<open>THREE.Color\<close> are their components.
  \<^verbatim>\<open>lerp\<close> is the one of three.js, \<^verbatim>\<open>this.x += (v.x - this.x) * alpha\<close> on each
  component.
\<close>

type_synonym Vector2 = "jsnum \<times> jsnum"
type_synonym Vector3 = "jsnum \<times> jsnum \<times> jsnum"
type_synonym Color = "jsnum \<times> jsnum \<times> jsnum"

definition lerp1 :: "jsnum \<Rightarrow> jsnum \<Rightarrow> jsnum \<Rightarrow> jsnum" where
  "lerp1 a b alpha = a + (b - a) * alpha"

fun lerp2 :: "Vector2 \<Rightarrow> Vector2 \<Rightarrow> jsnum \<Rightarrow> Vector2" where
  "lerp2 (x, y) (vx, vy) alpha = (lerp1 x vx alpha, lerp1 y vy alpha)"

fun lerp3 :: "Vector3 \<Rightarrow> Vector3 \<Rightarrow> jsnum \<Rightarrow> Vector3" where
  "lerp3 (x, y, z) (vx, vy, vz) alpha = (lerp1 x vx alpha, lerp1 y vy alpha, lerp1 z vz alpha)"

definition white :: Color where
  "white = (Fin 1, Fin 1, Fin 1)"

text \<open>
  The operations taken as given. Two are of three.js: reading a CSS colour string
  (\<^verbatim>\<open>new THREE.Color(s)\<close>) and \<^verbatim>\<open>Color.offsetHSL(h, s, l)\<close>. The third is the
  conversion of a number to single precision, which every store into a
  \<^verbatim>\<open>Float32Array\<close> performs and \<^verbatim>\<open>Math.fround\<close> computes; the position array of a
  geometry is such an array.
\<close>

record Three =
  newColor :: "string \<Rightarrow> Color"
  offsetHSL :: "Color \<Rightarrow> jsnum \<Rightarrow> jsnum \<Rightarrow> jsnum \<Rightarrow> Color"
  fround :: "jsnum \<Rightarrow> jsnum"

text \<open>The two helpers at the top of \<^verbatim>\<open>ThreeScene.tsx\<close>.\<close>

definition smoothstep :: "jsnum \<Rightarrow> jsnum \<Rightarrow> jsnum \<Rightarrow> jsnum" where
  "smoothstep mn mx v =
     (let x = Math_max (Fin 0) (Math_min (Fin 1) ((v - mn) / (mx - mn)))
      in x * x * (Fin 3 - Fin 2 * x))"

definition simpleNoise :: "jsnum \<Rightarrow> jsnum \<Rightarrow> jsnum \<Rightarrow> jsnum" where
  "simpleNoise x y z =
     Math_sin x * Math_cos y + Math_sin y * Math_cos z + Math_sin z * Math_cos x"

section \<open>The particle modes\<close>

text \<open>
  What one pass of the loop of \<^verbatim>\<open>updateParticles\<close> hands to the instanced mesh: the
  position, rotation and scale of \<^verbatim>\<open>dummy\<close>, from which \<^verbatim>\<open>updateMatrix\<close> composes
  the instance matrix, and the instance colour. The rotation is either the Euler
  angles set by \<^verbatim>\<open>dummy.rotation.set\<close> or the result of \<^verbatim>\<open>dummy.lookAt(0,0,0)\<close>.
\<close>

datatype Rotation = Euler jsnum jsnum jsnum | LookAtOrigin

record Instance =
  iposition :: Vector3
  irotation :: Rotation
  iscale :: jsnum
  icolor :: Color

text \<open>The inputs of \<^verbatim>\<open>updateParticles\<close> that are the same for every instance.\<close>

record ParticleInputs =
  ptime :: jsnum
  pcfg :: VisualConfig
  paudio :: AudioData
  cPrimary :: Color
  cSecondary :: Color
  pmood :: jsnum
  pmouse :: Vector2

definition goldenRatio :: jsnum where
  "goldenRatio = (Fin 1 + Math_sqrt (Fin 5)) / Fin 2"

definition angleIncrement :: jsnum where
  "angleIncrement = Fin pi * Fin 2 * goldenRatio"

definition explosion :: "ParticleInputs \<Rightarrow> jsnum" where
  "explosion p = Fin 1 + (bass (paudio p) / Fin 50) * (Fin 0.5 + pmood p)"

text \<open>
  \<^verbatim>\<open>data[freqIndex] || 0\<close> with \<^verbatim>\<open>freqIndex = Math.floor((i / count) * data.length)\<close>:
  a read past the end of the array is \<^verbatim>\<open>undefined\<close>, which \<^verbatim>\<open>||\<close> replaces by 0.
  The index is computed exactly here; in doubles the product can fall just below an
  integer and select the bin before. No statement below depends on which bin an
  instance reads: the spectra in them have the same value in every bin, or the
  statement is about a position that does not involve the bin.
\<close>

definition freqValue :: "8 word list \<Rightarrow> nat \<Rightarrow> nat \<Rightarrow> jsnum" where
  "freqValue data count i =
     (case Math_floor ((num i / num count) * num (length data)) of
        Fin k \<Rightarrow> (if 0 \<le> k \<and> nat \<lfloor>k\<rfloor> < length data
                   then num (unat (data ! nat \<lfloor>k\<rfloor>)) else Fin 0)
      | _ \<Rightarrow> Fin 0)"

text \<open>
  \<^verbatim>\<open>Math.ceil(Math.pow(count, 1/3))\<close>. The count of an instanced mesh is a natural number,
  and the loop body runs only when it is positive.
\<close>

definition gridSize :: "nat \<Rightarrow> nat" where
  "gridSize count = nat \<lceil>real count powr (1 / 3)\<rceil>"

text \<open>
  The branch on \<^verbatim>\<open>cfg.mode\<close> in the loop body: the position \<open>(x, y, z)\<close> and the scale
  after it. \<open>rnd\<close> gives the three values \<^verbatim>\<open>Math.random()\<close> returns to this instance
  in Grid mode. In Surface mode no branch is taken and the position stays \<open>(0, 0, 0)\<close>.
\<close>

definition modePosition ::
  "ParticleInputs \<Rightarrow> (nat \<Rightarrow> real) \<Rightarrow> nat \<Rightarrow> nat \<Rightarrow> jsnum \<Rightarrow> jsnum \<Rightarrow> Vector3 \<times> jsnum" where
  "modePosition p rnd count i normalizedFreq scale0 =
     (let time = ptime p; cfg = pcfg p; mood = pmood p;
          bass = bass (paudio p); mid = mid (paudio p);
          rand1 = Math_sin (num i * Fin 12.34)
      in
      if mode cfg = Ferrofluid then
        (let t = num i / num count;
             inclination = Math_acos (Fin 1 - Fin 2 * t);
             azimuth = angleIncrement * num i;
             radiusBase = Fin 12;
             sx = Math_sin inclination * Math_cos azimuth;
             sy = Math_sin inclination * Math_sin azimuth;
             sz = Math_cos inclination;
             noiseAmp = Fin 4 + (bass / Fin 255) * Fin 8;
             n1 = simpleNoise (sx * Fin 3 + time) (sy * Fin 3 + time) (sz * Fin 3);
             n2 = simpleNoise (sx * Fin 10) (sy * Fin 10 + time * Fin 2) (sz * Fin 10);
             spike = Math_max (Fin 0) (n1 + n2 * Fin 0.5);
             displacement = radiusBase + (spike * noiseAmp * (Fin 0.5 + mood))
         in ((sx * displacement, sy * displacement, sz * displacement),
             scale0 * (Fin 1.2 - (displacement - radiusBase) / Fin 10)))
      else if mode cfg = Orbit then
        (let theta = num i * Fin 0.1 + time * (rotationSpeed cfg + mood);
             expansion = (bass / Fin 255) * (Fin 5 + mood * Fin 10);
             radius = Fin 10 + expansion + (rand1 * mood * Fin 5)
         in ((Math_sin theta * radius * Math_cos (num i * Fin 0.05 + time * Fin 0.1),
              Math_cos theta * radius * Math_sin (num i * Fin 0.05 + time * Fin 0.1),
              (Math_sin (num i * Fin 0.1) * Fin 10) + (mid / Fin 255 * Fin 5)),
             scale0))
      else if mode cfg = Wave then
        (let x = (js_rem (num i) (Fin 50) - Fin 25) * Fin 1.5;
             z = (Math_floor (num i / Fin 50) - Fin 20) * Fin 1.5;
             waveHeight = Fin 5 + (bass / Fin 255 * Fin 10 * mood);
             waveFreq = Fin 0.2 + (mood * Fin 0.5);
             y = Math_sin (x * waveFreq + time * (Fin 2 + mood * Fin 2)) * waveHeight
                   + (normalizedFreq * Fin 10)
         in ((x, y, z), scale0))
      else if mode cfg = Grid then
        (let gs = num (gridSize count);
             spacing = Fin 3 + (bass / Fin 100 * mood);
             offset = (gs * spacing) / Fin 2;
             x = js_rem (num i) gs * spacing - offset;
             y = Math_floor (js_rem (num i / gs) gs) * spacing - offset;
             z = Math_floor (num i / (gs * gs)) * spacing - offset
         in if mood > Fin 0.7 then
              ((x + (Fin (rnd 0) - Fin 0.5) * Fin 0.5,
                y + (Fin (rnd 1) - Fin 0.5) * Fin 0.5,
                z + (Fin (rnd 2) - Fin 0.5) * Fin 0.5), scale0)
            else ((x, y, z), scale0))
      else if mode cfg = Chaos then
        (((Math_sin (num i) * Fin 20) * explosion p,
          (Math_cos (num i) * Fin 20) * explosion p,
          (Math_sin (num i * Fin 0.5) * Fin 20) * explosion p), scale0)
      else ((Fin 0, Fin 0, Fin 0), scale0))"

text \<open>
  Three values of the Ferrofluid branch, named for the statements about it: the point
  \<open>(sx, sy, sz)\<close> of the unit sphere, \<^verbatim>\<open>spike\<close> and \<^verbatim>\<open>displacement\<close> of instance \<open>i\<close>
  of \<open>count\<close>; and a vector scaled by a number.
\<close>

definition ferroPoint :: "nat \<Rightarrow> nat \<Rightarrow> Vector3" where
  "ferroPoint count i =
     (let t = num i / num count;
          inclination = Math_acos (Fin 1 - Fin 2 * t);
          azimuth = angleIncrement * num i
      in (Math_sin inclination * Math_cos azimuth,
          Math_sin inclination * Math_sin azimuth,
          Math_cos inclination))"

definition ferroSpike :: "ParticleInputs \<Rightarrow> nat \<Rightarrow> nat \<Rightarrow> jsnum" where
  "ferroSpike p count i =
     (let time = ptime p;
          sx = fst (ferroPoint count i);
          sy = fst (snd (ferroPoint count i));
          sz = snd (snd (ferroPoint count i));
          n1 = simpleNoise (sx * Fin 3 + time) (sy * Fin 3 + time) (sz * Fin 3);
          n2 = simpleNoise (sx * Fin 10) (sy * Fin 10 + time * Fin 2) (sz * Fin 10)
      in Math_max (Fin 0) (n1 + n2 * Fin 0.5))"

definition ferroDisplacement :: "ParticleInputs \<Rightarrow> nat \<Rightarrow> nat \<Rightarrow> jsnum" where
  "ferroDisplacement p count i =
     (let radiusBase = Fin 12;
          noiseAmp = Fin 4 + (bass (paudio p) / Fin 255) * Fin 8
      in radiusBase + (ferroSpike p count i * noiseAmp * (Fin 0.5 + pmood p)))"

definition scaled :: "Vector3 \<Rightarrow> jsnum \<Rightarrow> Vector3" where
  "scaled v k = (fst v * k, fst (snd v) * k, snd (snd v) * k)"

text \<open>
  The pointer's world position, and the repulsion step that follows the mode branch:
  position and scale after it, and whether the instance was within the radius.
\<close>

definition mouseWorld :: "Vector2 \<Rightarrow> Vector2" where
  "mouseWorld m = (fst m * Fin 20, snd m * Fin 20)"

definition repulsionRadius :: jsnum where
  "repulsionRadius = Fin 10"

definition mouseDist :: "Vector2 \<Rightarrow> Vector3 \<Rightarrow> jsnum" where
  "mouseDist m pos =
     (let dx = fst pos - fst (mouseWorld m);
          dy = fst (snd pos) - snd (mouseWorld m)
      in Math_sqrt (dx * dx + dy * dy))"

definition repulsion :: "Vector2 \<Rightarrow> Vector3 \<times> jsnum \<Rightarrow> Vector3 \<times> jsnum" where
  "repulsion m ps =
     (let pos = fst ps; scale = snd ps;
          x = fst pos; y = fst (snd pos); z = snd (snd pos);
          dx = x - fst (mouseWorld m);
          dy = y - snd (mouseWorld m);
          dst = mouseDist m pos
      in if dst < repulsionRadius then
           (let force = (Fin 1 - dst / repulsionRadius) * Fin 5
            in ((x + (dx / dst) * force, y + (dy / dst) * force, z), scale * Fin 1.5))
         else ((x, y, z), scale))"

text \<open>The colour of one instance, from \<^verbatim>\<open>// Color\<close> to \<^verbatim>\<open>mesh.setColorAt\<close>.\<close>

definition instanceColor :: "ParticleInputs \<Rightarrow> jsnum \<Rightarrow> jsnum \<Rightarrow> Color" where
  "instanceColor p normalizedFreq dst =
     (let mixFactor = (if pmood p > Fin 0.6 then smoothstep (Fin 0.4) (Fin 0.6) normalizedFreq
                       else normalizedFreq);
          c0 = lerp3 (cPrimary p) (cSecondary p) mixFactor;
          c1 = (if bass (paudio p) > Fin 230 \<and> pmood p > Fin 0.3
                then lerp3 c0 white (Fin 0.5 * normalizedFreq) else c0)
      in if dst < repulsionRadius then lerp3 c1 white (Fin 0.3) else c1)"

text \<open>
  One pass of the loop of \<^verbatim>\<open>updateParticles\<close>, for instance \<open>i\<close> of \<open>count\<close>:
  \<^verbatim>\<open>normalizedFreq\<close>, then position and scale after the branch on the mode, then the
  whole pass.
\<close>

definition normalizedFreqOf :: "ParticleInputs \<Rightarrow> nat \<Rightarrow> nat \<Rightarrow> jsnum" where
  "normalizedFreqOf p count i = freqValue (frequencyData (paudio p)) count i / Fin 255"

definition modeResult :: "ParticleInputs \<Rightarrow> (nat \<Rightarrow> real) \<Rightarrow> nat \<Rightarrow> nat \<Rightarrow> Vector3 \<times> jsnum" where
  "modeResult p rnd count i =
     (let normalizedFreq = normalizedFreqOf p count i;
          scale0 = particleSize (pcfg p) * (Fin 0.5 + normalizedFreq)
      in modePosition p rnd count i normalizedFreq scale0)"

definition particle :: "ParticleInputs \<Rightarrow> (nat \<Rightarrow> real) \<Rightarrow> nat \<Rightarrow> nat \<Rightarrow> Instance" where
  "particle p rnd count i =
     (let normalizedFreq = normalizedFreqOf p count i;
          ms = modeResult p rnd count i;
          dst = mouseDist (pmouse p) (fst ms);
          rs = repulsion (pmouse p) ms;
          pos = fst rs;
          scale = (if pmood p > Fin 0.6 \<and> normalizedFreq > Fin 0.5
                   then snd rs * Fin 1.5 else snd rs)
      in \<lparr>iposition = pos,
          irotation = (if mode (pcfg p) \<noteq> Ferrofluid
                       then Euler (ptime p + fst pos) (ptime p + fst (snd pos))
                              (ptime p + snd (snd pos))
                       else LookAtOrigin),
          iscale = scale,
          icolor = instanceColor p normalizedFreq dst\<rparr>)"

text \<open>
  The instanced mesh: its two rotation angles and its instances, \<^verbatim>\<open>mesh.count\<close> of them.
  \<^verbatim>\<open>updateParticles\<close> turns the mesh and rewrites every instance. The \<open>k\<close>-th value
  of \<^verbatim>\<open>Math.random()\<close> in the call is \<open>rnd k\<close>; instance \<open>i\<close> of Grid mode draws the
  values \<open>3 i\<close>, \<open>3 i + 1\<close> and \<open>3 i + 2\<close>.
\<close>

record InstancedMesh =
  rotationY :: jsnum
  rotationZ :: jsnum
  instances :: "Instance list"

definition updateParticles ::
  "InstancedMesh \<Rightarrow> ParticleInputs \<Rightarrow> (nat \<Rightarrow> real) \<Rightarrow> InstancedMesh" where
  "updateParticles mesh p rnd =
     (let count = length (instances mesh);
          rotationFactor = (if mode (pcfg p) = Ferrofluid then Fin 0.2 else Fin 1.0)
      in \<lparr>rotationY = rotationY mesh
             + (Fin 0.001 + pmood p * Fin 0.005) * rotationSpeed (pcfg p) * rotationFactor,
          rotationZ = rotationZ mesh + (Fin 0.0005 + pmood p * Fin 0.002) * rotationFactor,
          instances = map (\<lambda>i. particle p (\<lambda>k. rnd (3 * i + k)) count i) [0..<count]\<rparr>)"

section \<open>The scene and the frame tick\<close>

text \<open>
  The state one call of \<^verbatim>\<open>animate\<close> reads and writes: the refs of the component and
  the properties of the scene objects it touches. The refs to the composer, the bloom
  pass, the background material, the camera, the particles and the surface mesh are
  set by the effect before it calls \<^verbatim>\<open>animate\<close> for the first time, so the guards
  on them are passed. Typed arrays live in a heap of buffers, addressed by numbers:
  \<open>positionArray\<close> is the array behind \<^verbatim>\<open>surfaceGeometry.attributes.position\<close> and
  \<open>originalPositionsRef\<close> the array the ref of that name points to. Both are
  \<^verbatim>\<open>Float32Array\<close>s: a store converts the number to single precision, a read gives
  the stored number as it is.
\<close>

record Scene =
  timeRef :: jsnum
  mouseRef :: Vector2
  targetMouseRef :: Vector2
  hueShiftRef :: jsnum
  cameraAngleRef :: jsnum
  smoothedBassRef :: jsnum
  moodRef :: jsnum
  uTime :: jsnum
  uEnergy :: jsnum
  uMood :: jsnum
  uColor1 :: Color
  uColor2 :: Color
  uColor3 :: Color
  cameraPosition :: Vector3
  bloomStrength :: jsnum
  particles :: InstancedMesh
  particlesVisible :: bool
  surfaceVisible :: bool
  surfaceColor :: Color
  surfaceEmissive :: Color
  surfaceEmissiveIntensity :: jsnum
  surfaceRotationY :: jsnum
  heap :: "nat \<Rightarrow> jsnum list"
  positionArray :: nat
  originalPositionsRef :: nat

text \<open>The lines under \<^verbatim>\<open>// --- Analysis ---\<close>, one definition for each assignment.\<close>

definition nextSmoothedBass :: "AudioData \<Rightarrow> jsnum \<Rightarrow> jsnum" where
  "nextSmoothedBass audio sb = sb + (bass audio - sb) * Fin 0.15"

definition normalizedBassOf :: "jsnum \<Rightarrow> jsnum" where
  "normalizedBassOf sb = Math_min (sb / Fin 255) (Fin 1.0)"

definition currentEnergy :: "AudioData \<Rightarrow> jsnum" where
  "currentEnergy audio = (bass audio + mid audio + treble audio) / (Fin 255 * Fin 3)"

definition nextMoodRef :: "AudioData \<Rightarrow> jsnum \<Rightarrow> jsnum" where
  "nextMoodRef audio mr = mr + (currentEnergy audio - mr) * Fin 0.02"

definition moodOf :: "jsnum \<Rightarrow> jsnum" where
  "moodOf mr = Math_max (Fin 0) (Math_min (Fin 1) (mr * Fin 1.5))"

definition nextHueShift :: "jsnum \<Rightarrow> jsnum \<Rightarrow> jsnum" where
  "nextHueShift mood h =
     (let h1 = h + (Fin 0.0002 + (mood * Fin 0.001))
      in if h1 > Fin 1 then h1 - Fin 1 else h1)"

definition camSpeed :: "jsnum \<Rightarrow> jsnum" where
  "camSpeed mood = Fin 0.001 + (mood * Fin 0.005)"

text \<open>The camera target of \<^verbatim>\<open>// Update Camera\<close>; \<open>r\<close> is the value of \<^verbatim>\<open>Math.random()\<close>.\<close>

definition cameraTarget ::
  "jsnum \<Rightarrow> jsnum \<Rightarrow> Vector2 \<Rightarrow> jsnum \<Rightarrow> jsnum \<Rightarrow> real \<Rightarrow> Vector3" where
  "cameraTarget cameraAngle time mouse mood normalizedBass r =
     (let mouseCamX = fst mouse * Fin 2;
          mouseCamY = snd mouse * Fin 2;
          baseRadius = Fin 30;
          zoom = normalizedBass * (Fin 5 + mood * Fin 5);
          radius = baseRadius - zoom;
          camX = Math_sin cameraAngle * radius + mouseCamX;
          camZ = Math_cos cameraAngle * radius;
          camY = Fin 5 + Math_sin (time * Fin 0.5) * Fin 2
                   + ((Fin r - Fin 0.5) * mood * normalizedBass * Fin 2) + mouseCamY
      in (camX, camY, camZ))"

text \<open>
  Reading a typed array: past its end the value is \<^verbatim>\<open>undefined\<close>, which arithmetic
  turns into \<^verbatim>\<open>NaN\<close>. \<^verbatim>\<open>setXYZ\<close> of a buffer attribute writes three consecutive
  elements of its \<^verbatim>\<open>Float32Array\<close>, each converted to single precision by \<open>fr\<close>; a
  typed array ignores a write past its end.
\<close>

definition readAt :: "jsnum list \<Rightarrow> nat \<Rightarrow> jsnum" where
  "readAt a k = (if k < length a then a ! k else NaN)"

definition setXYZ ::
  "(jsnum \<Rightarrow> jsnum) \<Rightarrow> jsnum list \<Rightarrow> nat \<Rightarrow> jsnum \<Rightarrow> jsnum \<Rightarrow> jsnum \<Rightarrow> jsnum list" where
  "setXYZ fr a i x y z = a[i * 3 := fr x, i * 3 + 1 := fr y, i * 3 + 2 := fr z]"

text \<open>The inputs of the vertex loop of Surface mode that are the same for every vertex.\<close>

record SurfaceInputs =
  stime :: jsnum
  ssensitivity :: jsnum
  sdata :: "8 word list"
  smood :: jsnum
  smouse :: Vector2

text \<open>
  \<^verbatim>\<open>data[i % dataLen] / 255.0\<close>: with an empty array the index is \<^verbatim>\<open>NaN\<close>, the element
  \<^verbatim>\<open>undefined\<close> and the quotient \<^verbatim>\<open>NaN\<close>.
\<close>

definition freqVal :: "8 word list \<Rightarrow> nat \<Rightarrow> jsnum" where
  "freqVal data i =
     (if length data = 0 then NaN else num (unat (data ! (i mod length data))) / Fin 255.0)"

text \<open>\<^verbatim>\<open>Math.pow(a, 2)\<close>.\<close>

definition pow2 :: "jsnum \<Rightarrow> jsnum" where
  "pow2 a = a * a"

text \<open>
  The three scalars the loop body computes for vertex \<open>i\<close>, whose rest position is
  \<open>(ox, oy, oz)\<close>: \<^verbatim>\<open>displacement\<close>, \<^verbatim>\<open>mouseFactor\<close> and their sum \<^verbatim>\<open>totalScale\<close>.
\<close>

definition surfaceDisplacement :: "SurfaceInputs \<Rightarrow> nat \<Rightarrow> jsnum \<Rightarrow> jsnum \<Rightarrow> jsnum \<Rightarrow> jsnum" where
  "surfaceDisplacement si i ox oy oz =
     (let n = simpleNoise (ox * Fin 0.2 + stime si) (oy * Fin 0.2 + stime si) (oz * Fin 0.2)
      in Fin 1.0 + (freqVal (sdata si) i * Fin 0.5 * ssensitivity si) + (n * Fin 0.2 * smood si))"

definition mouseFactor :: "SurfaceInputs \<Rightarrow> jsnum \<Rightarrow> jsnum \<Rightarrow> jsnum" where
  "mouseFactor si ox oy =
     (let mouseWorldX = fst (smouse si) * Fin 15;
          mouseWorldY = snd (smouse si) * Fin 15;
          distToMouse = Math_sqrt (pow2 (ox - mouseWorldX) + pow2 (oy - mouseWorldY))
      in if distToMouse < Fin 8 then (Fin 1 - distToMouse / Fin 8) * Fin 2.0 else Fin 0)"

definition totalScale :: "SurfaceInputs \<Rightarrow> nat \<Rightarrow> jsnum \<Rightarrow> jsnum \<Rightarrow> jsnum \<Rightarrow> jsnum" where
  "totalScale si i ox oy oz = surfaceDisplacement si i ox oy oz + mouseFactor si ox oy"

text \<open>
  The loop \<^verbatim>\<open>for (let i = 0; i < vertexCount; i++)\<close> of Surface mode, from vertex \<open>i\<close>
  on: it reads the buffer at \<open>orig\<close> and writes the buffer at \<open>pos\<close>, converting to
  single precision by \<open>fr\<close>.
\<close>

function surfaceLoop ::
  "(jsnum \<Rightarrow> jsnum) \<Rightarrow> SurfaceInputs \<Rightarrow> nat \<Rightarrow> nat \<Rightarrow> nat \<Rightarrow> nat \<Rightarrow> (nat \<Rightarrow> jsnum list)
     \<Rightarrow> (nat \<Rightarrow> jsnum list)" where
  "surfaceLoop fr si vertexCount orig pos i h =
     (if i < vertexCount then
        (let ox = readAt (h orig) (i * 3);
             oy = readAt (h orig) (i * 3 + 1);
             oz = readAt (h orig) (i * 3 + 2);
             ts = totalScale si i ox oy oz
         in surfaceLoop fr si vertexCount orig pos (Suc i)
              (h(pos := setXYZ fr (h pos) i (ox * ts) (oy * ts) (oz * ts))))
      else h)"
  by pat_completeness auto
termination
  by (relation "measure (\<lambda>(fr, si, vertexCount, orig, pos, i, h). vertexCount - i)") auto

declare surfaceLoop.simps [simp del]

text \<open>
  One call of \<^verbatim>\<open>animate\<close>. \<open>rnd\<close> gives the values of \<^verbatim>\<open>Math.random()\<close> in the order
  of the calls: the camera takes the first, the particles the following ones.
\<close>

definition animate :: "Three \<Rightarrow> VisualConfig \<Rightarrow> AudioData \<Rightarrow> (nat \<Rightarrow> real) \<Rightarrow> Scene \<Rightarrow> Scene" where
  "animate three config audio rnd s =
     (let time = timeRef s + Fin 0.005;
          mouse = lerp2 (mouseRef s) (targetMouseRef s) (Fin 0.1);
          smoothedBass = nextSmoothedBass audio (smoothedBassRef s);
          normalizedBass = normalizedBassOf smoothedBass;
          moodR = nextMoodRef audio (moodRef s);
          mood = moodOf moodR;
          hueShift = nextHueShift mood (hueShiftRef s);
          basePrimary = newColor three (primaryColor config);
          baseSecondary = newColor three (secondaryColor config);
          baseBg = newColor three (backgroundColor config);
          dynamicPrimary = offsetHSL three basePrimary hueShift (mood * Fin 0.2) (Fin 0);
          dynamicSecondary = offsetHSL three baseSecondary hueShift (mood * Fin 0.2) (Fin 0);
          dynamicBg = offsetHSL three baseBg (hueShift * Fin 0.2) (Fin 0) (Fin 0);
          cameraAngle = cameraAngleRef s + camSpeed mood;
          s1 = s\<lparr>timeRef := time,
                 mouseRef := mouse,
                 smoothedBassRef := smoothedBass,
                 moodRef := moodR,
                 hueShiftRef := hueShift,
                 uTime := time,
                 uEnergy := normalizedBass,
                 uMood := mood,
                 uColor1 := lerp3 (uColor1 s) dynamicBg (Fin 0.1),
                 uColor2 := lerp3 (uColor2 s) dynamicSecondary (Fin 0.1),
                 uColor3 := lerp3 (uColor3 s) dynamicPrimary (Fin 0.1),
                 cameraAngleRef := cameraAngle,
                 cameraPosition :=
                   lerp3 (cameraPosition s)
                     (cameraTarget cameraAngle time mouse mood normalizedBass (rnd 0)) (Fin 0.1),
                 bloomStrength := bloomIntensity config * Fin 0.5 + (normalizedBass * (Fin 1 + mood))\<rparr>
      in if mode config = Surface then
           s1\<lparr>particlesVisible := False,
              surfaceVisible := True,
              surfaceColor := lerp3 (surfaceColor s) dynamicPrimary (Fin 0.1),
              surfaceEmissive := lerp3 (surfaceEmissive s) dynamicSecondary (Fin 0.1),
              surfaceEmissiveIntensity := normalizedBass * Fin 0.5,
              heap := surfaceLoop (fround three)
                        \<lparr>stime = time, ssensitivity = sensitivity config,
                         sdata = frequencyData audio, smood = mood, smouse = mouse\<rparr>
                        (length (heap s (positionArray s)) div 3)
                        (originalPositionsRef s) (positionArray s) 0 (heap s),
              surfaceRotationY := surfaceRotationY s + Fin 0.002\<rparr>
         else
           s1\<lparr>surfaceVisible := False,
              particlesVisible := True,
              particles := updateParticles (particles s)
                             \<lparr>ptime = time, pcfg = config, paudio = audio,
                              cPrimary = dynamicPrimary, cSecondary = dynamicSecondary,
                              pmood = mood, pmouse = mouse\<rparr>
                             (\<lambda>k. rnd (Suc k))\<rparr>)"

text \<open>
  The scene the effect builds before the first frame. The refs start at 0 and the
  pointer at the centre; the camera is at \<open>(0, 5, 30)\<close>; the background colours are
  those of the configuration; the instanced mesh has \<^verbatim>\<open>PARTICLE_COUNT\<close> instances with
  the identity matrix. \<open>geometry\<close> is the position array of the icosahedron geometry;
  \<^verbatim>\<open>new Float32Array(...)\<close> followed by \<^verbatim>\<open>set\<close> copies it into a second buffer of
  the same element type, so unchanged.
\<close>

definition PARTICLE_COUNT :: nat where
  "PARTICLE_COUNT = 2500"

definition identityInstance :: Instance where
  "identityInstance =
     \<lparr>iposition = (Fin 0, Fin 0, Fin 0), irotation = Euler (Fin 0) (Fin 0) (Fin 0),
      iscale = Fin 1, icolor = white\<rparr>"

definition initScene :: "Three \<Rightarrow> VisualConfig \<Rightarrow> jsnum list \<Rightarrow> Scene" where
  "initScene three config geometry =
     \<lparr>timeRef = Fin 0,
      mouseRef = (Fin 0, Fin 0),
      targetMouseRef = (Fin 0, Fin 0),
      hueShiftRef = Fin 0,
      cameraAngleRef = Fin 0,
      smoothedBassRef = Fin 0,
      moodRef = Fin 0,
      uTime = Fin 0,
      uEnergy = Fin 0,
      uMood = Fin 0,
      uColor1 = newColor three (backgroundColor config),
      uColor2 = newColor three (secondaryColor config),
      uColor3 = newColor three (primaryColor config),
      cameraPosition = (Fin 0, Fin 5, Fin 30),
      bloomStrength = Fin 1.0,
      particles = \<lparr>rotationY = Fin 0, rotationZ = Fin 0,
                   instances = replicate PARTICLE_COUNT identityInstance\<rparr>,
      particlesVisible = True,
      surfaceVisible = False,
      surfaceColor = white,
      surfaceEmissive = (Fin 0, Fin 0, Fin 0),
      surfaceEmissiveIntensity = Fin 1,
      surfaceRotationY = Fin 0,
      heap = (\<lambda>a. [])(0 := geometry, 1 := geometry),
      positionArray = 0,
      originalPositionsRef = 1\<rparr>"

text \<open>
  What happens between two frames and in one: a pointer event may set the target of
  the pointer, the audio loop may replace the audio data, and \<^verbatim>\<open>animate\<close> runs with
  the random values it draws.
\<close>

record Frame =
  fconfig :: VisualConfig
  faudio :: AudioData
  ftarget :: Vector2
  frandom :: "nat \<Rightarrow> real"

definition frame :: "Three \<Rightarrow> Frame \<Rightarrow> Scene \<Rightarrow> Scene" where
  "frame three f s = animate three (fconfig f) (faudio f) (frandom f) (s\<lparr>targetMouseRef := ftarget f\<rparr>)"

fun frames :: "Three \<Rightarrow> Frame list \<Rightarrow> Scene \<Rightarrow> Scene" where
  "frames three [] s = s"
| "frames three (f # fs) s = frames three fs (frame three f s)"

section \<open>The configuration generator\<close>

text \<open>
  A JavaScript value as \<^verbatim>\<open>JSON.parse\<close> can return it. \<^verbatim>\<open>generateVisualConfig\<close> casts
  such a value to \<^verbatim>\<open>VisualConfig\<close>; the cast checks nothing at run time, so the
  function returns a value, not a record.
\<close>

datatype jsval =
    JNull
  | JBool bool
  | JNumber jsnum
  | JString string
  | JArray "jsval list"
  | JObject "(string \<times> jsval) list"

text \<open>The string values of the two enums of \<^verbatim>\<open>types.ts\<close>.\<close>

fun modeString :: "VisualizerMode \<Rightarrow> string" where
  "modeString Orbit = ''ORBIT''"
| "modeString Wave = ''WAVE''"
| "modeString Grid = ''GRID''"
| "modeString Chaos = ''CHAOS''"
| "modeString Ferrofluid = ''FERROFLUID''"
| "modeString Surface = ''SURFACE''"

fun geometryString :: "GeometryType \<Rightarrow> string" where
  "geometryString Box = ''BOX''"
| "geometryString Sphere = ''SPHERE''"
| "geometryString Tetrahedron = ''TETRAHEDRON''"
| "geometryString Octahedron = ''OCTAHEDRON''"
| "geometryString Torus = ''TORUS''"
| "geometryString Cone = ''CONE''"

text \<open>A configuration as the object it is at run time.\<close>

definition objectOf :: "VisualConfig \<Rightarrow> jsval" where
  "objectOf c =
     JObject
       [(''mode'', JString (modeString (mode c))),
        (''geometryType'', JString (geometryString (geometryType c))),
        (''primaryColor'', JString (primaryColor c)),
        (''secondaryColor'', JString (secondaryColor c)),
        (''backgroundColor'', JString (backgroundColor c)),
        (''particleSize'', JNumber (particleSize c)),
        (''rotationSpeed'', JNumber (rotationSpeed c)),
        (''sensitivity'', JNumber (sensitivity c)),
        (''bloomIntensity'', JNumber (bloomIntensity c)),
        (''description'', JString (description c))]"

text \<open>
  Whether a value has the shape of \<^verbatim>\<open>VisualConfig\<close>: an object with each of the ten
  properties, of the declared type.
\<close>

definition isStringIn :: "string list \<Rightarrow> jsval option \<Rightarrow> bool" where
  "isStringIn allowed v = (case v of Some (JString x) \<Rightarrow> x \<in> set allowed | _ \<Rightarrow> False)"

definition isString :: "jsval option \<Rightarrow> bool" where
  "isString v = (case v of Some (JString x) \<Rightarrow> True | _ \<Rightarrow> False)"

definition isNumber :: "jsval option \<Rightarrow> bool" where
  "isNumber v = (case v of Some (JNumber x) \<Rightarrow> True | _ \<Rightarrow> False)"

definition isVisualConfig :: "jsval \<Rightarrow> bool" where
  "isVisualConfig v =
     (case v of
        JObject props \<Rightarrow>
          isStringIn (map modeString [Orbit, Wave, Grid, Chaos, Ferrofluid, Surface])
            (map_of props ''mode'') \<and>
          isStringIn (map geometryString [Box, Sphere, Tetrahedron, Octahedron, Torus, Cone])
            (map_of props ''geometryType'') \<and>
          isString (map_of props ''primaryColor'') \<and>
          isString (map_of props ''secondaryColor'') \<and>
          isString (map_of props ''backgroundColor'') \<and>
          isNumber (map_of props ''particleSize'') \<and>
          isNumber (map_of props ''rotationSpeed'') \<and>
          isNumber (map_of props ''sensitivity'') \<and>
          isNumber (map_of props ''bloomIntensity'') \<and>
          isString (map_of props ''description'')
      | _ \<Rightarrow> False)"

text \<open>\<^verbatim>\<open>DEFAULT_CONFIG\<close> of \<^verbatim>\<open>geminiService.ts\<close>.\<close>

definition DEFAULT_CONFIG :: VisualConfig where
  "DEFAULT_CONFIG =
     \<lparr>mode = Orbit,
      geometryType = Box,
      primaryColor = ''#00ffcc'',
      secondaryColor = ''#ff00ff'',
      backgroundColor = ''#1a1a2e'',
      particleSize = Fin 0.5,
      rotationSpeed = Fin 0.5,
      sensitivity = Fin 1.5,
      bloomIntensity = Fin 1.0,
      description = ''Default cyberpunk aesthetic''\<rparr>"

text \<open>
  What the call of the generator can come to, as \<^verbatim>\<open>generateVisualConfig\<close> sees it:
  \<^item> \<open>Rejected\<close>: \<^verbatim>\<open>ai.models.generateContent\<close> throws or its promise is rejected;
  \<^item> \<open>NoText\<close>: the response arrives and \<^verbatim>\<open>response.text\<close> is empty or undefined;
  \<^item> \<open>BadJson\<close>: the text is not empty and \<^verbatim>\<open>JSON.parse\<close> throws on it;
  \<^item> \<open>Json v\<close>: the text is not empty and \<^verbatim>\<open>JSON.parse\<close> returns \<open>v\<close>.
\<close>

datatype Reply = Rejected | NoText | BadJson | Json jsval

fun generateVisualConfig :: "Reply \<Rightarrow> jsval" where
  "generateVisualConfig (Json v) = v"
| "generateVisualConfig NoText = objectOf DEFAULT_CONFIG"
| "generateVisualConfig BadJson = objectOf DEFAULT_CONFIG"
| "generateVisualConfig Rejected = objectOf DEFAULT_CONFIG"

section \<open>Predicates and sample inputs used in the statements\<close>

text \<open>
  A finite number that is not negative; a number between 0 and 1; and audio data whose
  three band energies are between 0 and \<open>2 ^ 1000\<close>, a bound that keeps every sum of
  the frame tick below the overflow threshold of a double. The energies the spectrum
  reduction delivers are averages of bytes, so between 0 and 255.
\<close>

definition nonNegative :: "jsnum \<Rightarrow> bool" where
  "nonNegative x = (isFinite x \<and> Fin 0 \<le> x)"

definition inUnit :: "jsnum \<Rightarrow> bool" where
  "inUnit x = (Fin 0 \<le> x \<and> x \<le> Fin 1)"

definition bandEnergyOk :: "jsnum \<Rightarrow> bool" where
  "bandEnergyOk x = (Fin 0 \<le> x \<and> x \<le> Fin (2 ^ 1000))"

definition bandsOk :: "AudioData \<Rightarrow> bool" where
  "bandsOk a = (bandEnergyOk (bass a) \<and> bandEnergyOk (mid a) \<and> bandEnergyOk (treble a))"

text \<open>
  The invariant of the smoothed signals: the bass tracker is finite and not negative,
  the mood tracker is finite, and the two values handed to the generators and the
  background (\<^verbatim>\<open>mood\<close> as \<open>uMood\<close>, \<^verbatim>\<open>normalizedBass\<close> as \<open>uEnergy\<close>) are within 0 and 1.
\<close>

definition signalsOk :: "Scene \<Rightarrow> bool" where
  "signalsOk s = (nonNegative (smoothedBassRef s) \<and> isFinite (moodRef s)
      \<and> inUnit (uMood s) \<and> inUnit (uEnergy s))"

text \<open>
  An instance of the operations taken as given, for concrete inputs: every colour
  string reads as white, \<^verbatim>\<open>offsetHSL\<close> leaves a colour as it is, and so does the
  conversion to single precision with a number.
\<close>

definition plainThree :: Three where
  "plainThree = \<lparr>newColor = (\<lambda>s. white), offsetHSL = (\<lambda>c h s l. c), fround = (\<lambda>x. x)\<rparr>"

text \<open>A frame with a very loud bass band.\<close>

definition loudFrame :: Frame where
  "loudFrame =
     \<lparr>fconfig = DEFAULT_CONFIG,
      faudio = \<lparr>frequencyData = [], overallAmplitude = Fin 0,
                bass = Fin 1000000, mid = Fin 0, treble = Fin 255\<rparr>,
      ftarget = (Fin 0, Fin 0),
      frandom = (\<lambda>k. 0)\<rparr>"

text \<open>
  A frame of silence (the audio data the application starts with), and a frame whose
  bass energy is infinite.
\<close>

definition silentFrame :: Frame where
  "silentFrame =
     \<lparr>fconfig = DEFAULT_CONFIG,
      faudio = \<lparr>frequencyData = replicate 128 0, overallAmplitude = Fin 0,
                bass = Fin 0, mid = Fin 0, treble = Fin 0\<rparr>,
      ftarget = (Fin 0, Fin 0),
      frandom = (\<lambda>k. 0)\<rparr>"

definition infiniteFrame :: Frame where
  "infiniteFrame =
     \<lparr>fconfig = DEFAULT_CONFIG,
      faudio = \<lparr>frequencyData = [], overallAmplitude = Fin 0,
                bass = PInf, mid = Fin 0, treble = Fin 0\<rparr>,
      ftarget = (Fin 0, Fin 0),
      frandom = (\<lambda>k. 0)\<rparr>"

text \<open>
  The corners of the axis-aligned cube with the given side and centre; an instanced
  mesh of 8 instances; the audio data of silence; and the inputs of Grid mode at time
  0 with silence, mood 0 and the pointer at \<open>m\<close>.
\<close>

fun cubeCorners :: "real \<Rightarrow> real \<times> real \<times> real \<Rightarrow> Vector3 list" where
  "cubeCorners side (cx, cy, cz) =
     [(Fin (cx + a), Fin (cy + b), Fin (cz + d)).
        d \<leftarrow> [- side / 2, side / 2], b \<leftarrow> [- side / 2, side / 2], a \<leftarrow> [- side / 2, side / 2]]"

definition mesh8 :: InstancedMesh where
  "mesh8 = \<lparr>rotationY = Fin 0, rotationZ = Fin 0, instances = replicate 8 identityInstance\<rparr>"

definition silentAudio :: AudioData where
  "silentAudio = \<lparr>frequencyData = replicate 128 0, overallAmplitude = Fin 0,
                   bass = Fin 0, mid = Fin 0, treble = Fin 0\<rparr>"

definition gridInputs :: "Vector2 \<Rightarrow> ParticleInputs" where
  "gridInputs m =
     \<lparr>ptime = Fin 0, pcfg = DEFAULT_CONFIG\<lparr>mode := Grid\<rparr>, paudio = silentAudio,
      cPrimary = white, cSecondary = white, pmood = Fin 0, pmouse = m\<rparr>"

text \<open>
  A closed form used below: where Grid mode puts instance \<open>i\<close> of 8 when bass and
  mood are 0, before the pointer acts.
\<close>

definition gridCorner :: "nat \<Rightarrow> Vector3" where
  "gridCorner i = (Fin (3 * real (i mod 2) - 3), Fin (3 * real (i div 2 mod 2) - 3),
                   Fin (3 * real (i div 4) - 3))"

text \<open>
  Closed forms over the reals used in the statements about Ferrofluid mode: the noise
  function, the point of the unit sphere that belongs to instance \<open>i\<close> of \<open>count\<close>,
  and the radial displacement \<^verbatim>\<open>spike * noiseAmp * (0.5 + mood)\<close> added to the base
  radius at time \<open>t\<close>, bass \<open>b\<close> and mood \<open>m\<close>. \<open>norm3\<close> is the length of a vector, as
  \<^verbatim>\<open>Vector3.length\<close> computes it.
\<close>

definition noiseR :: "real \<Rightarrow> real \<Rightarrow> real \<Rightarrow> real" where
  "noiseR x y z = sin x * cos y + sin y * cos z + sin z * cos x"

definition ferroDir :: "nat \<Rightarrow> nat \<Rightarrow> real \<times> real \<times> real" where
  "ferroDir count i =
     (let inclination = arccos (1 - 2 * (real i / real count));
          azimuth = pi * 2 * ((1 + sqrt 5) / 2) * real i
      in (sin inclination * cos azimuth, sin inclination * sin azimuth, cos inclination))"

definition ferroExtra :: "real \<Rightarrow> real \<Rightarrow> real \<Rightarrow> nat \<Rightarrow> nat \<Rightarrow> real" where
  "ferroExtra t b m count i =
     (case ferroDir count i of (sx, sy, sz) \<Rightarrow>
        max 0 (noiseR (sx * 3 + t) (sy * 3 + t) (sz * 3)
               + noiseR (sx * 10) (sy * 10 + t * 2) (sz * 10) * 0.5)
          * (4 + b / 255 * 8) * (0.5 + m))"

definition norm3 :: "Vector3 \<Rightarrow> jsnum" where
  "norm3 v = Math_sqrt (fst v * fst v + fst (snd v) * fst (snd v) + snd (snd v) * snd (snd v))"

text \<open>
  The inputs of Ferrofluid mode at time 0 with silence, mood 0 and the pointer at
  \<open>m\<close>; and the pointer whose world position lies on the ray from the origin through
  the position the mode gives to instance 1 of 2, 0.2 beyond that position.
\<close>

definition ferroInputs :: "Vector2 \<Rightarrow> ParticleInputs" where
  "ferroInputs m =
     \<lparr>ptime = Fin 0, pcfg = DEFAULT_CONFIG\<lparr>mode := Ferrofluid\<rparr>, paudio = silentAudio,
      cPrimary = white, cSecondary = white, pmood = Fin 0, pmouse = m\<rparr>"

definition ferroPointer :: Vector2 where
  "ferroPointer =
     (case fst (modeResult (ferroInputs (Fin 0, Fin 0)) (\<lambda>k. 0) 2 1) of
        (Fin x, Fin y, z) \<Rightarrow>
          (Fin (x * (sqrt (x\<^sup>2 + y\<^sup>2) + 0.2) / sqrt (x\<^sup>2 + y\<^sup>2) / 20),
           Fin (y * (sqrt (x\<^sup>2 + y\<^sup>2) + 0.2) / sqrt (x\<^sup>2 + y\<^sup>2) / 20))
      | _ \<Rightarrow> (Fin 0, Fin 0))"

text \<open>
  For the statements about Surface mode: the coordinate \<open>k\<close> the loop writes for
  vertex \<open>j\<close> given the rest positions; the inputs of the vertex loop in the frame
  that leads to scene \<open>s'\<close>; inputs with a sensitivity that is finite and not
  negative, frequency data that are not empty and a mood within 0 and 1; the
  invariant of the two buffers (the live array at address 0, the rest positions at
  address 1, equal to the geometry \<open>g\<close>) and of the clock; the audio data the
  spectrum reduction gives for 256 bins (the bin count of the application's analyser)
  that are all 255; and two frames with it in Surface mode, one with the default
  sensitivity 1.5 and one with the sensitivity \<open>- 4\<close>.
\<close>

definition scaledVertex ::
  "(jsnum \<Rightarrow> jsnum) \<Rightarrow> SurfaceInputs \<Rightarrow> jsnum list \<Rightarrow> nat \<Rightarrow> nat \<Rightarrow> jsnum" where
  "scaledVertex fr si rest j k =
     fr (readAt rest (3 * j + k)
       * totalScale si j (readAt rest (3 * j)) (readAt rest (3 * j + 1)) (readAt rest (3 * j + 2)))"

definition surfaceInputsOf :: "VisualConfig \<Rightarrow> AudioData \<Rightarrow> Scene \<Rightarrow> SurfaceInputs" where
  "surfaceInputsOf config audio s' =
     \<lparr>stime = timeRef s', ssensitivity = sensitivity config, sdata = frequencyData audio,
      smood = uMood s', smouse = mouseRef s'\<rparr>"

definition surfaceInputsOk :: "SurfaceInputs \<Rightarrow> bool" where
  "surfaceInputsOk si =
     (nonNegative (ssensitivity si) \<and> sdata si \<noteq> [] \<and> inUnit (smood si))"

definition buffersOk :: "jsnum list \<Rightarrow> Scene \<Rightarrow> bool" where
  "buffersOk g s =
     (positionArray s = 0 \<and> originalPositionsRef s = 1 \<and> heap s 1 = g \<and>
      length (heap s 0) = length g \<and> isFinite (timeRef s))"

definition loudAudio :: AudioData where
  "loudAudio = analyse (replicate 256 255)"

definition surfaceFrame :: Frame where
  "surfaceFrame =
     \<lparr>fconfig = DEFAULT_CONFIG\<lparr>mode := Surface\<rparr>, faudio = loudAudio,
      ftarget = (Fin 0, Fin 0), frandom = (\<lambda>k. 0)\<rparr>"

definition mirrorFrame :: Frame where
  "mirrorFrame =
     \<lparr>fconfig = DEFAULT_CONFIG\<lparr>mode := Surface, sensitivity := Fin (- 4)\<rparr>, faudio = loudAudio,
      ftarget = (Fin 0, Fin 0), frandom = (\<lambda>k. 0)\<rparr>"

text \<open>Audio data with \<open>n\<close> bins that are all 0 and the four energies 0.\<close>

definition zeroAudio :: "nat \<Rightarrow> AudioData" where
  "zeroAudio n = \<lparr>frequencyData = replicate n 0, overallAmplitude = Fin 0,
                   bass = Fin 0, mid = Fin 0, treble = Fin 0\<rparr>"

section \<open>Facts about the spectrum reduction\<close>

lemma bassLimit_div: "bassLimit n = n div 10"
proof -
  have "\<lfloor>real n * 0.1\<rfloor> = \<lfloor>real n / real 10\<rfloor>" by simp
  also have "\<dots> = int (n div 10)" by (simp only: floor_divide_of_nat_eq)
  finally show ?thesis by (simp add: bassLimit_def)
qed

lemma midLimit_div: "midLimit n = n div 2"
proof -
  have "\<lfloor>real n * 0.5\<rfloor> = \<lfloor>real n / real 2\<rfloor>" by simp
  also have "\<dots> = int (n div 2)" by (simp only: floor_divide_of_nat_eq)
  finally show ?thesis by (simp add: midLimit_def)
qed

lemma analyse_loop_sums:
  "analyse_loop d bl ml i acc =
     \<lparr>sumAll = sumAll acc + (\<Sum>j = i..<length d. unat (d ! j)),
      bassSum = bassSum acc + (\<Sum>j = i..<length d. if j < bl then unat (d ! j) else 0),
      midSum = midSum acc
        + (\<Sum>j = i..<length d. if j < bl then 0 else if j < ml then unat (d ! j) else 0),
      trebleSum = trebleSum acc
        + (\<Sum>j = i..<length d. if j < bl then 0 else if j < ml then 0 else unat (d ! j))\<rparr>"
proof (induction d bl ml i acc rule: analyse_loop.induct)
  case (1 d bl ml i acc)
  show ?case
  proof (cases "i < length d")
    case True
    then show ?thesis
      using "1.IH" [OF True refl refl refl]
      by (subst analyse_loop.simps) (simp add: Let_def sum.atLeast_Suc_lessThan)
  next
    case False
    then show ?thesis
      by (subst analyse_loop.simps) simp
  qed
qed

lemma band_sum_split:
  fixes f :: "nat \<Rightarrow> nat"
  assumes "a \<le> b" "b \<le> n"
  shows "(\<Sum>j = 0..<n. if j < a then 0 else if j < b then f j else 0) = (\<Sum>j = a..<b. f j)"
proof -
  have "(\<Sum>j = 0..<n. if j < a then 0 else if j < b then f j else 0)
      = (\<Sum>j \<in> {0..<n} \<inter> {a..<b}. f j)"
    by (subst sum.inter_restrict) (auto intro!: sum.cong)
  moreover have "{0..<n} \<inter> {a..<b} = {a..<b}" using assms by auto
  ultimately show ?thesis by simp
qed

lemma bass_sum_eq:
  fixes f :: "nat \<Rightarrow> nat"
  assumes "a \<le> n"
  shows "(\<Sum>j = 0..<n. if j < a then f j else 0) = (\<Sum>j = 0..<a. f j)"
  using band_sum_split [of 0 a n f] assms by simp

lemma treble_sum_eq:
  fixes f :: "nat \<Rightarrow> nat"
  assumes "a \<le> b" "b \<le> n"
  shows "(\<Sum>j = 0..<n. if j < a then 0 else if j < b then 0 else f j) = (\<Sum>j = b..<n. f j)"
proof -
  have "(\<Sum>j = 0..<n. if j < a then 0 else if j < b then 0 else f j)
      = (\<Sum>j = 0..<n. if j < b then 0 else if j < n then f j else 0)"
    using assms by (auto intro!: sum.cong)
  then show ?thesis using band_sum_split [of b n n f] assms by simp
qed

text \<open>
  The reduction in closed form: each energy is the sum of its band divided by the
  number of bins of the band, the bands being the first tenth, the bins up to the
  half, and the rest.
\<close>

lemma analyse_bands:
  "analyse d =
     \<lparr>frequencyData = d,
      overallAmplitude = num (\<Sum>j = 0..<length d. unat (d ! j)) / num (length d),
      bass = num (\<Sum>j = 0..<length d div 10. unat (d ! j)) / num (length d div 10),
      mid = num (\<Sum>j = length d div 10..<length d div 2. unat (d ! j))
              / num (length d div 2 - length d div 10),
      treble = num (\<Sum>j = length d div 2..<length d. unat (d ! j))
              / num (length d - length d div 2)\<rparr>"
proof -
  have a: "length d div 10 \<le> length d div 2" by simp
  have b: "length d div 2 \<le> length d" by simp
  show ?thesis
    unfolding analyse_def Let_def analyse_loop_sums bassLimit_div midLimit_div
    using bass_sum_eq [of "length d div 10" "length d" "\<lambda>j. unat (d ! j)"]
          band_sum_split [OF a b, of "\<lambda>j. unat (d ! j)"]
          treble_sum_eq [OF a b, of "\<lambda>j. unat (d ! j)"]
    by simp
qed

lemma sum_replicate_255:
  "b \<le> n \<Longrightarrow> (\<Sum>j = a..<b. unat (replicate n (255 :: 8 word) ! j)) = 255 * (b - a)"
proof -
  assume "b \<le> n"
  then have "(\<Sum>j = a..<b. unat (replicate n (255 :: 8 word) ! j)) = (\<Sum>j = a..<b. 255)"
    by (intro sum.cong) auto
  then show ?thesis by simp
qed

text \<open>
  Claim C4. For a sample of 100 bins that all hold 255, the bass band is the first 10
  bins, the mid band the next 40 (up to bin 50) and the treble band the last 50, and
  the four energies are exactly 255.
\<close>

theorem analyse_all_255:
  "bassLimit 100 = 10 \<and> midLimit 100 = 50 \<and>
   analyse (replicate 100 255) =
     \<lparr>frequencyData = replicate 100 255, overallAmplitude = Fin 255,
      bass = Fin 255, mid = Fin 255, treble = Fin 255\<rparr>"
  by (simp add: analyse_bands bassLimit_div midLimit_div sum_replicate_255 num_def)

text \<open>
  Claim C2, as stated, fails: on the empty sample no band has a bin, no minimum size
  is imposed, and each of the four energies is the quotient of 0 by 0.
\<close>

theorem analyse_empty_counterexample:
  "analyse [] =
     \<lparr>frequencyData = [], overallAmplitude = NaN, bass = NaN, mid = NaN, treble = NaN\<rparr>"
  by (simp add: analyse_bands num_def)

text \<open>
  Claim C2, amended. The reduction is total: it returns audio data for every sample.
  The bass band has at least one bin exactly when the sample has at least 10 bins;
  from 10 bins on every band has at least one bin and the four energies are finite;
  below 10 bins the bass energy is \<^verbatim>\<open>NaN\<close>; and a sample of at least 10 bins that are
  all 0 has the four energies exactly 0.
\<close>

theorem analyse_band_sizes:
  "(1 \<le> bassLimit (length d) \<longleftrightarrow> 10 \<le> length d) \<and>
   (10 \<le> length d \<longrightarrow>
      1 \<le> midLimit (length d) - bassLimit (length d) \<and>
      1 \<le> length d - midLimit (length d) \<and>
      isFinite (overallAmplitude (analyse d)) \<and> isFinite (bass (analyse d)) \<and>
      isFinite (mid (analyse d)) \<and> isFinite (treble (analyse d))) \<and>
   (length d < 10 \<longrightarrow> bass (analyse d) = NaN) \<and>
   (10 \<le> n \<longrightarrow>
      analyse (replicate n 0) =
        \<lparr>frequencyData = replicate n 0, overallAmplitude = Fin 0,
         bass = Fin 0, mid = Fin 0, treble = Fin 0\<rparr>)"
proof (intro conjI impI)
  show "(1 \<le> bassLimit (length d)) = (10 \<le> length d)"
    unfolding bassLimit_div by arith
next
  assume "10 \<le> length d"
  then show "1 \<le> midLimit (length d) - bassLimit (length d)"
    by (simp add: bassLimit_div midLimit_div)
next
  assume "10 \<le> length d"
  then show "1 \<le> length d - midLimit (length d)"
    by (simp add: midLimit_div)
next
  assume "10 \<le> length d"
  then have "length d \<noteq> 0" by arith
  then show "isFinite (overallAmplitude (analyse d))"
    by (simp add: analyse_bands num_def)
next
  assume "10 \<le> length d"
  then have "length d div 10 \<noteq> 0" by arith
  then show "isFinite (bass (analyse d))"
    by (simp add: analyse_bands num_def)
next
  assume "10 \<le> length d"
  then have "length d div 2 - length d div 10 \<noteq> 0" by arith
  then show "isFinite (mid (analyse d))"
    by (simp add: analyse_bands num_def)
next
  assume "10 \<le> length d"
  then have "length d - length d div 2 \<noteq> 0" by arith
  then show "isFinite (treble (analyse d))"
    by (simp add: analyse_bands num_def)
next
  assume "length d < 10"
  then show "bass (analyse d) = NaN"
    by (simp add: analyse_bands num_def)
next
  assume n: "10 \<le> n"
  then have "n \<noteq> 0" "n div 10 \<noteq> 0" "n div 2 - n div 10 \<noteq> 0" "n - n div 2 \<noteq> 0"
    by arith+
  with n show "analyse (replicate n 0) =
        \<lparr>frequencyData = replicate n 0, overallAmplitude = Fin 0,
         bass = Fin 0, mid = Fin 0, treble = Fin 0\<rparr>"
    by (simp add: analyse_bands num_def)
qed

theorem analyse_band_sizes_witness:
  "(1 \<le> bassLimit (length (replicate 16 (7 :: 8 word)))) \<and>
   10 \<le> length (replicate 16 (7 :: 8 word)) \<and>
   isFinite (bass (analyse (replicate 16 7))) \<and>
   isFinite (mid (analyse (replicate 16 7))) \<and>
   length ([] :: 8 word list) < 10 \<and> bass (analyse []) = NaN \<and>
   (10 :: nat) \<le> 16 \<and>
   analyse (replicate 16 0) =
        \<lparr>frequencyData = replicate 16 0, overallAmplitude = Fin 0,
         bass = Fin 0, mid = Fin 0, treble = Fin 0\<rparr>"
  using analyse_band_sizes [of "replicate 16 7" 16] analyse_band_sizes [of "[]" 16]
  by simp

section \<open>Facts about the frame tick\<close>

lemma Fin_minus [simp]: "Fin a - Fin b = Fin (a - b)"
  by (simp add: minus_jsnum_def)

lemma nonNegativeE: "nonNegative x \<Longrightarrow> \<exists>r. x = Fin r \<and> 0 \<le> r"
  by (cases x) (simp_all add: nonNegative_def)

lemma isFiniteE: "isFinite x \<Longrightarrow> \<exists>r. x = Fin r"
  by (cases x) simp_all

text \<open>What one call of \<^verbatim>\<open>animate\<close> leaves in the refs of the smoothed signals.\<close>

lemma animate_smoothedBassRef:
  "smoothedBassRef (animate three c a rnd s) = nextSmoothedBass a (smoothedBassRef s)"
  by (simp add: animate_def Let_def)

lemma animate_moodRef:
  "moodRef (animate three c a rnd s) = nextMoodRef a (moodRef s)"
  by (simp add: animate_def Let_def)

lemma animate_uEnergy:
  "uEnergy (animate three c a rnd s) = normalizedBassOf (nextSmoothedBass a (smoothedBassRef s))"
  by (simp add: animate_def Let_def)

lemma animate_uMood:
  "uMood (animate three c a rnd s) = moodOf (nextMoodRef a (moodRef s))"
  by (simp add: animate_def Let_def)

lemma animate_hueShiftRef:
  "hueShiftRef (animate three c a rnd s)
     = nextHueShift (moodOf (nextMoodRef a (moodRef s))) (hueShiftRef s)"
  by (simp add: animate_def Let_def)

lemma animate_cameraAngleRef:
  "cameraAngleRef (animate three c a rnd s)
     = cameraAngleRef s + camSpeed (moodOf (nextMoodRef a (moodRef s)))"
  by (simp add: animate_def Let_def)

lemma frame_signalsOk:
  assumes "signalsOk s" "nonNegative (bass (faudio f))" "nonNegative (mid (faudio f))"
    "nonNegative (treble (faudio f))"
  shows "signalsOk (frame three f s)"
proof -
  obtain sb where sb: "smoothedBassRef s = Fin sb" "0 \<le> sb"
    using assms(1) nonNegativeE unfolding signalsOk_def by blast
  obtain mr where mr: "moodRef s = Fin mr"
    using assms(1) isFiniteE unfolding signalsOk_def by blast
  obtain b where b: "bass (faudio f) = Fin b" "0 \<le> b" using assms(2) nonNegativeE by blast
  obtain m where m: "mid (faudio f) = Fin m" "0 \<le> m" using assms(3) nonNegativeE by blast
  obtain t where t: "treble (faudio f) = Fin t" "0 \<le> t" using assms(4) nonNegativeE by blast
  have "0 \<le> sb + (b - sb) * 0.15" using sb(2) b(2) by (simp add: field_simps)
  then show ?thesis
    unfolding signalsOk_def frame_def animate_smoothedBassRef animate_moodRef animate_uEnergy
      animate_uMood
    using sb mr b m t
    by (simp add: nextSmoothedBass_def nextMoodRef_def normalizedBassOf_def moodOf_def
        currentEnergy_def nonNegative_def inUnit_def)
qed

lemma initScene_signalsOk: "signalsOk (initScene three c g)"
  by (simp add: signalsOk_def initScene_def nonNegative_def inUnit_def)

lemma frames_signalsOk:
  assumes "\<forall>f \<in> set fs. nonNegative (bass (faudio f)) \<and> nonNegative (mid (faudio f))
              \<and> nonNegative (treble (faudio f))"
    and "signalsOk s"
  shows "signalsOk (frames three fs s)"
  using assms
proof (induction fs arbitrary: s)
  case Nil
  then show ?case by simp
next
  case (Cons f fs)
  have "signalsOk (frame three f s)"
    using Cons.prems by (intro frame_signalsOk) simp_all
  then show ?case using Cons by simp
qed

lemma bandEnergyOk_nonNegative: "bandEnergyOk x \<Longrightarrow> nonNegative x"
  by (cases x) (simp_all add: bandEnergyOk_def nonNegative_def)

text \<open>
  Claim C1, as stated, fails: the two trackers are not clamped, only the values read
  from them are, and a tracker that has reached infinity turns into \<^verbatim>\<open>NaN\<close> at the
  next finite input (\<^verbatim>\<open>Infinity - Infinity\<close>). One frame whose bass energy is infinite
  followed by one frame of silence leaves both the impact and the mood at \<^verbatim>\<open>NaN\<close>,
  which is not within 0 and 1.
\<close>

theorem infinite_band_counterexample:
  "Fin 0 \<le> bass (faudio infiniteFrame) \<and>
   uEnergy (frames plainThree [infiniteFrame, silentFrame] (initScene plainThree DEFAULT_CONFIG []))
     = NaN \<and>
   uMood (frames plainThree [infiniteFrame, silentFrame] (initScene plainThree DEFAULT_CONFIG []))
     = NaN \<and>
   \<not> inUnit (uEnergy (frames plainThree [infiniteFrame, silentFrame]
                 (initScene plainThree DEFAULT_CONFIG []))) \<and>
   \<not> inUnit (uMood (frames plainThree [infiniteFrame, silentFrame]
                 (initScene plainThree DEFAULT_CONFIG [])))"
  by (simp add: frame_def animate_uEnergy animate_uMood animate_smoothedBassRef animate_moodRef
      infiniteFrame_def silentFrame_def initScene_def nextSmoothedBass_def normalizedBassOf_def
      nextMoodRef_def currentEnergy_def moodOf_def inUnit_def minus_jsnum_def)

text \<open>
  Claim C1, amended. Start from the scene the effect builds and run any sequence of
  frames whose three band energies are between 0 and \<open>2 ^ 1000\<close>. After every such
  sequence the mood and the impact handed on (\<open>uMood\<close>, \<open>uEnergy\<close>) are within 0 and
  1. In each frame, from any scene: the bass tracker moves by 0.15 of its distance to
  the bass energy and is stored; the impact is the stored tracker divided by 255 and
  capped at 1; the energy tracker moves by 0.02 of its distance to the mean of the
  three energies over 255 and is stored; the mood is the stored tracker times 1.5,
  clamped to 0 and 1.
\<close>

theorem mood_impact_in_unit:
  assumes "\<forall>f \<in> set fs. bandsOk (faudio f)"
  shows "inUnit (uMood (frames three fs (initScene three c g))) \<and>
         inUnit (uEnergy (frames three fs (initScene three c g))) \<and>
         smoothedBassRef (frame three f s)
           = smoothedBassRef s + (bass (faudio f) - smoothedBassRef s) * Fin 0.15 \<and>
         uEnergy (frame three f s)
           = Math_min (smoothedBassRef (frame three f s) / Fin 255) (Fin 1) \<and>
         moodRef (frame three f s)
           = moodRef s + ((bass (faudio f) + mid (faudio f) + treble (faudio f))
                            / (Fin 255 * Fin 3) - moodRef s) * Fin 0.02 \<and>
         uMood (frame three f s)
           = Math_max (Fin 0) (Math_min (Fin 1) (moodRef (frame three f s) * Fin 1.5))"
proof -
  have "\<forall>f \<in> set fs. nonNegative (bass (faudio f)) \<and> nonNegative (mid (faudio f))
              \<and> nonNegative (treble (faudio f))"
    using assms by (simp add: bandsOk_def bandEnergyOk_nonNegative)
  then have "signalsOk (frames three fs (initScene three c g))"
    using initScene_signalsOk by (rule frames_signalsOk)
  then show ?thesis
    by (simp add: signalsOk_def frame_def animate_uEnergy animate_uMood animate_smoothedBassRef
        animate_moodRef nextSmoothedBass_def normalizedBassOf_def nextMoodRef_def
        currentEnergy_def moodOf_def)
qed

theorem mood_impact_in_unit_witness:
  "bandsOk (faudio loudFrame) \<and> bandsOk (faudio silentFrame) \<and>
   inUnit (uMood (frames plainThree [loudFrame, silentFrame] (initScene plainThree DEFAULT_CONFIG []))) \<and>
   inUnit (uEnergy (frames plainThree [loudFrame, silentFrame] (initScene plainThree DEFAULT_CONFIG []))) \<and>
   Fin 100000 < smoothedBassRef (frame plainThree loudFrame (initScene plainThree DEFAULT_CONFIG [])) \<and>
   uEnergy (frame plainThree loudFrame (initScene plainThree DEFAULT_CONFIG [])) = Fin 1 \<and>
   Fin 20 < moodRef (frame plainThree loudFrame (initScene plainThree DEFAULT_CONFIG [])) \<and>
   uMood (frame plainThree loudFrame (initScene plainThree DEFAULT_CONFIG [])) = Fin 1"
proof -
  have b: "bandsOk (faudio loudFrame)" "bandsOk (faudio silentFrame)"
    by (simp_all add: loudFrame_def silentFrame_def bandsOk_def bandEnergyOk_def)
  then have h: "\<forall>f \<in> set [loudFrame, silentFrame]. bandsOk (faudio f)" by simp
  note th = mood_impact_in_unit [OF h, of plainThree DEFAULT_CONFIG "[]" loudFrame
      "initScene plainThree DEFAULT_CONFIG []"]
  from th have 1: "inUnit (uMood (frames plainThree [loudFrame, silentFrame]
                     (initScene plainThree DEFAULT_CONFIG [])))"
    and 2: "inUnit (uEnergy (frames plainThree [loudFrame, silentFrame]
                     (initScene plainThree DEFAULT_CONFIG [])))"
    by blast+
  let ?s = "frame plainThree loudFrame (initScene plainThree DEFAULT_CONFIG [])"
  from th have e3: "smoothedBassRef ?s
        = smoothedBassRef (initScene plainThree DEFAULT_CONFIG [])
          + (bass (faudio loudFrame) - smoothedBassRef (initScene plainThree DEFAULT_CONFIG []))
            * Fin 0.15"
    and e4: "uEnergy ?s = Math_min (smoothedBassRef ?s / Fin 255) (Fin 1)"
    and e5: "moodRef ?s
        = moodRef (initScene plainThree DEFAULT_CONFIG [])
          + ((bass (faudio loudFrame) + mid (faudio loudFrame) + treble (faudio loudFrame))
               / (Fin 255 * Fin 3) - moodRef (initScene plainThree DEFAULT_CONFIG [])) * Fin 0.02"
    and e6: "uMood ?s = Math_max (Fin 0) (Math_min (Fin 1) (moodRef ?s * Fin 1.5))"
    by blast+
  have v3: "smoothedBassRef ?s = Fin 150000"
    unfolding e3 by (simp add: loudFrame_def initScene_def)
  have v5: "moodRef ?s = Fin (200051 / 7650)"
    unfolding e5 by (simp add: loudFrame_def initScene_def)
  have 3: "Fin 100000 < smoothedBassRef ?s" unfolding v3 by simp
  have 4: "uEnergy ?s = Fin 1" unfolding e4 v3 by simp
  have 5: "Fin 20 < moodRef ?s" unfolding v5 by simp
  have 6: "uMood ?s = Fin 1" unfolding e6 v5 by simp
  from b 1 2 3 4 5 6 show ?thesis by blast
qed

section \<open>Facts about the configuration generator\<close>

text \<open>
  Claim C9, as stated, fails: a reply whose text parses to an object with a single
  property is returned as it is; it is neither a complete configuration nor the
  default one.
\<close>

theorem generate_partial_counterexample:
  "generateVisualConfig (Json (JObject [(''mode'', JString ''ORBIT'')]))
     = JObject [(''mode'', JString ''ORBIT'')] \<and>
   \<not> isVisualConfig (generateVisualConfig (Json (JObject [(''mode'', JString ''ORBIT'')]))) \<and>
   generateVisualConfig (Json (JObject [(''mode'', JString ''ORBIT'')])) \<noteq> objectOf DEFAULT_CONFIG"
  by (simp add: isVisualConfig_def isString_def isStringIn_def isNumber_def objectOf_def)

lemma default_isVisualConfig: "isVisualConfig (objectOf DEFAULT_CONFIG)"
  by (simp add: isVisualConfig_def isString_def isStringIn_def isNumber_def objectOf_def
      DEFAULT_CONFIG_def)

text \<open>
  Claim C9, amended. When the call is rejected, the response has no text, or the text
  is not JSON, the function returns the default configuration, which is complete and
  has mode Orbit. When the text is JSON, the function returns the parsed value
  unchecked. So the result is a complete configuration exactly when the reply is not
  a parsed value or the parsed value is one.
\<close>

theorem generate_default_or_unchecked:
  "(r \<in> {Rejected, NoText, BadJson} \<longrightarrow> generateVisualConfig r = objectOf DEFAULT_CONFIG) \<and>
   isVisualConfig (objectOf DEFAULT_CONFIG) \<and>
   mode DEFAULT_CONFIG = Orbit \<and>
   generateVisualConfig (Json v) = v \<and>
   (isVisualConfig (generateVisualConfig r) \<longleftrightarrow> (\<forall>w. r = Json w \<longrightarrow> isVisualConfig w))"
  using default_isVisualConfig by (cases r) (auto simp: DEFAULT_CONFIG_def)

theorem generate_default_or_unchecked_witness:
  "BadJson \<in> {Rejected, NoText, BadJson} \<and>
   generateVisualConfig BadJson = objectOf DEFAULT_CONFIG \<and>
   generateVisualConfig (Json (JObject [])) = JObject [] \<and>
   isVisualConfig (generateVisualConfig BadJson)"
  using generate_default_or_unchecked [of BadJson "JObject []"] by simp

section \<open>Facts about the particle modes\<close>

lemma cube_root_8: "(8 :: real) powr (1 / 3) = 2"
proof -
  have "(8 :: real) = 2 powr 3" by simp
  then have "(8 :: real) powr (1 / 3) = (2 powr 3) powr (1 / 3)" by simp
  also have "\<dots> = 2 powr (3 * (1 / 3))" by (rule powr_powr)
  finally show ?thesis by simp
qed

lemma gridSize_8: "gridSize 8 = 2"
  by (simp add: gridSize_def cube_root_8)

lemma less_8_cases: "i < 8 \<Longrightarrow> i = 0 \<or> i = 1 \<or> i = 2 \<or> i = 3 \<or> i = 4 \<or> i = 5 \<or> i = 6 \<or> i = (7 :: nat)"
  by arith

lemma modePosition_grid_8:
  assumes "mode (pcfg p) = Grid" "bass (paudio p) = Fin 0" "pmood p = Fin 0" "i < 8"
  shows "modePosition p rnd 8 i nf sc = (gridCorner i, sc)"
  using less_8_cases [OF assms(4)] assms(1-3)
  by (auto simp: modePosition_def Let_def gridSize_8 num_def gridCorner_def)

lemma particle_iposition:
  "iposition (particle p rnd count i) = fst (repulsion (pmouse p) (modeResult p rnd count i))"
  by (simp add: particle_def Let_def)

lemma updateParticles_instances:
  "instances (updateParticles mesh p rnd)
     = map (\<lambda>i. particle p (\<lambda>k. rnd (3 * i + k)) (length (instances mesh)) i)
         [0..<length (instances mesh)]"
  by (simp add: updateParticles_def Let_def)

lemma mouseDist_Fin:
  "mouseDist (Fin mx, Fin my) (Fin x, Fin y, z)
     = Fin (sqrt ((x - mx * 20) * (x - mx * 20) + (y - my * 20) * (y - my * 20)))"
  by (simp add: mouseDist_def mouseWorld_def Let_def not_less)

lemma repulsion_outside:
  assumes "\<not> mouseDist m (fst ps) < repulsionRadius"
  shows "repulsion m ps = ps"
  using assms by (simp add: repulsion_def Let_def)

lemma repulsion_at_pointer:
  assumes "mouseWorld m = (Fin x, Fin y)"
  shows "repulsion m ((Fin x, Fin y, z), sc) = ((NaN, NaN, z), sc * Fin 1.5)"
  using assms by (simp add: repulsion_def Let_def mouseDist_def repulsionRadius_def)

lemma upt_8: "[0..<8] = [0, 1, 2, 3, 4, 5, 6, 7 :: nat]"
  by (simp add: upt_rec)

lemma gridCorners_8:
  "map gridCorner [0..<8] =
     [(Fin (- 3), Fin (- 3), Fin (- 3)), (Fin 0, Fin (- 3), Fin (- 3)),
      (Fin (- 3), Fin 0, Fin (- 3)), (Fin 0, Fin 0, Fin (- 3)),
      (Fin (- 3), Fin (- 3), Fin 0), (Fin 0, Fin (- 3), Fin 0),
      (Fin (- 3), Fin 0, Fin 0), (Fin 0, Fin 0, Fin 0)]"
  by (simp add: upt_8 gridCorner_def)

lemma mouseDist_far:
  assumes "100 \<le> (x - 20 * mx)\<^sup>2 + (y - 20 * my)\<^sup>2"
  shows "\<not> mouseDist (Fin mx, Fin my) (Fin x, Fin y, z) < repulsionRadius"
proof -
  have "(10 :: real)\<^sup>2 \<le> (x - mx * 20) * (x - mx * 20) + (y - my * 20) * (y - my * 20)"
    using assms by (simp add: power2_eq_square mult.commute)
  then have "10 \<le> sqrt ((x - mx * 20) * (x - mx * 20) + (y - my * 20) * (y - my * 20))"
    by (rule real_le_rsqrt)
  then show ?thesis
    by (simp add: mouseDist_Fin repulsionRadius_def)
qed

lemma modeResult_grid_8:
  assumes "mode (pcfg p) = Grid" "bass (paudio p) = Fin 0" "pmood p = Fin 0" "i < 8"
  shows "fst (modeResult p rnd 8 i) = gridCorner i"
  using assms by (simp add: modeResult_def Let_def modePosition_grid_8)

lemma grid_far_position:
  assumes "mode (pcfg p) = Grid" "bass (paudio p) = Fin 0" "pmood p = Fin 0" "i < 8"
    and "\<not> mouseDist (pmouse p) (fst (modeResult p rnd 8 i)) < repulsionRadius"
  shows "iposition (particle p rnd' 8 i) = gridCorner i"
proof -
  have "fst (modeResult p rnd' 8 i) = fst (modeResult p rnd 8 i)"
    using assms(1-4) by (simp add: modeResult_grid_8)
  then have "\<not> mouseDist (pmouse p) (fst (modeResult p rnd' 8 i)) < repulsionRadius"
    using assms(5) by simp
  then show ?thesis
    using assms(1-4) by (simp add: particle_iposition repulsion_outside modeResult_grid_8)
qed

lemma grid_far_positions:
  assumes "length (instances mesh) = 8"
    and "mode (pcfg p) = Grid" "bass (paudio p) = Fin 0" "pmood p = Fin 0"
    and "\<forall>i < 8. \<not> mouseDist (pmouse p) (fst (modeResult p (\<lambda>k. rnd (3 * i + k)) 8 i))
                      < repulsionRadius"
  shows "map iposition (instances (updateParticles mesh p rnd')) = map gridCorner [0..<8]"
proof -
  have "iposition (particle p (\<lambda>k. rnd' (3 * i + k)) 8 i) = gridCorner i" if "i < 8" for i
    using assms(2-4) that assms(5) [rule_format, OF that] by (rule grid_far_position)
  then show ?thesis
    unfolding updateParticles_instances assms(1) map_map
    by (intro map_cong [OF refl]) simp
qed

lemma gridInputs_far:
  assumes "i < 8"
  shows "\<not> mouseDist (pmouse (gridInputs (Fin 1, Fin 1)))
            (fst (modeResult (gridInputs (Fin 1, Fin 1)) rnd 8 i)) < repulsionRadius"
proof -
  have g: "fst (modeResult (gridInputs (Fin 1, Fin 1)) rnd 8 i) = gridCorner i"
    using assms by (intro modeResult_grid_8) (simp_all add: gridInputs_def silentAudio_def)
  have "100 \<le> (3 * real (i mod 2) - 3 - 20 * 1)\<^sup>2 + (3 * real (i div 2 mod 2) - 3 - 20 * 1)\<^sup>2"
    using less_8_cases [OF assms] by auto
  then show ?thesis
    unfolding g gridCorner_def by (simp add: gridInputs_def mouseDist_far)
qed

text \<open>
  Claim C5, as stated, fails. With the pointer far from every instance, the 8
  positions of Grid mode with bass 0 and mood 0 have every coordinate equal to -3 or
  0; the origin is one of them, so they are not the corners of the cube of side 3
  centred at the origin.
\<close>

theorem grid_not_centred_counterexample:
  "map iposition (instances (updateParticles mesh8 (gridInputs (Fin 1, Fin 1)) (\<lambda>k. 0))) =
     [(Fin (- 3), Fin (- 3), Fin (- 3)), (Fin 0, Fin (- 3), Fin (- 3)),
      (Fin (- 3), Fin 0, Fin (- 3)), (Fin 0, Fin 0, Fin (- 3)),
      (Fin (- 3), Fin (- 3), Fin 0), (Fin 0, Fin (- 3), Fin 0),
      (Fin (- 3), Fin 0, Fin 0), (Fin 0, Fin 0, Fin 0)] \<and>
   set (map iposition (instances (updateParticles mesh8 (gridInputs (Fin 1, Fin 1)) (\<lambda>k. 0))))
     \<noteq> set (cubeCorners 3 (0, 0, 0))"
proof -
  have "map iposition (instances (updateParticles mesh8 (gridInputs (Fin 1, Fin 1)) (\<lambda>k. 0)))
          = map gridCorner [0..<8]"
    by (rule grid_far_positions [where rnd = "\<lambda>k. 0"])
       (simp_all add: mesh8_def gridInputs_far, simp_all add: gridInputs_def silentAudio_def)
  moreover have "(Fin 0, Fin 0, Fin 0) \<in> set (map gridCorner [0..<8])"
    unfolding gridCorners_8 by simp
  moreover have "(Fin 0, Fin 0, Fin 0) \<notin> set (cubeCorners 3 (0, 0, 0))"
    by simp
  ultimately show ?thesis
    unfolding gridCorners_8 by metis
qed

text \<open>
  Claim C5, amended. In Grid mode with 8 instances, bass 0 and mood 0, when no
  instance is within the repulsion radius of the pointer, the 8 positions are
  pairwise distinct and are exactly the 8 corners of an axis-aligned cube of side 3,
  and they do not depend on the random values: no jitter is applied.
\<close>

theorem grid_cube_corners:
  assumes "length (instances mesh) = 8"
    and "mode (pcfg p) = Grid" "bass (paudio p) = Fin 0" "pmood p = Fin 0"
    and "\<forall>i < 8. \<not> mouseDist (pmouse p) (fst (modeResult p (\<lambda>k. rnd (3 * i + k)) 8 i))
                      < repulsionRadius"
  shows "(\<exists>c. set (map iposition (instances (updateParticles mesh p rnd))) = set (cubeCorners 3 c)) \<and>
         distinct (map iposition (instances (updateParticles mesh p rnd))) \<and>
         length (instances (updateParticles mesh p rnd)) = 8 \<and>
         map iposition (instances (updateParticles mesh p rnd))
           = map iposition (instances (updateParticles mesh p rnd'))"
proof -
  have e: "map iposition (instances (updateParticles mesh p r)) = map gridCorner [0..<8]" for r
    using assms by (rule grid_far_positions)
  have "set (map gridCorner [0..<8]) = set (cubeCorners 3 (- 1.5, - 1.5, - 1.5))"
    unfolding gridCorners_8 by auto
  then have 1: "\<exists>c. set (map iposition (instances (updateParticles mesh p rnd))) = set (cubeCorners 3 c)"
    unfolding e by blast
  have 2: "distinct (map iposition (instances (updateParticles mesh p rnd)))"
    unfolding e gridCorners_8 by simp
  have 3: "length (instances (updateParticles mesh p rnd)) = 8"
    by (simp add: updateParticles_instances assms(1))
  from 1 2 3 e show ?thesis by simp
qed

theorem grid_cube_corners_witness:
  "length (instances mesh8) = 8 \<and> mode (pcfg (gridInputs (Fin 1, Fin 1))) = Grid \<and>
   bass (paudio (gridInputs (Fin 1, Fin 1))) = Fin 0 \<and> pmood (gridInputs (Fin 1, Fin 1)) = Fin 0 \<and>
   \<not> mouseDist (pmouse (gridInputs (Fin 1, Fin 1)))
        (fst (modeResult (gridInputs (Fin 1, Fin 1)) (\<lambda>k. 0) 8 7)) < repulsionRadius \<and>
   (\<exists>c. set (map iposition (instances (updateParticles mesh8 (gridInputs (Fin 1, Fin 1)) (\<lambda>k. 0))))
          = set (cubeCorners 3 c)) \<and>
   distinct (map iposition (instances (updateParticles mesh8 (gridInputs (Fin 1, Fin 1)) (\<lambda>k. 0)))) \<and>
   map iposition (instances (updateParticles mesh8 (gridInputs (Fin 1, Fin 1)) (\<lambda>k. 0)))
     = map iposition (instances (updateParticles mesh8 (gridInputs (Fin 1, Fin 1)) (\<lambda>k. 1 / 2)))"
proof -
  have h1: "length (instances mesh8) = 8" by (simp add: mesh8_def)
  have h2: "mode (pcfg (gridInputs (Fin 1, Fin 1))) = Grid"
    and h3: "bass (paudio (gridInputs (Fin 1, Fin 1))) = Fin 0"
    and h4: "pmood (gridInputs (Fin 1, Fin 1)) = Fin 0"
    by (simp_all add: gridInputs_def silentAudio_def)
  have h5: "\<forall>i < 8. \<not> mouseDist (pmouse (gridInputs (Fin 1, Fin 1)))
               (fst (modeResult (gridInputs (Fin 1, Fin 1)) (\<lambda>k. (\<lambda>k. 0) (3 * i + k)) 8 i))
             < repulsionRadius"
    by (simp add: gridInputs_far)
  have h7: "\<not> mouseDist (pmouse (gridInputs (Fin 1, Fin 1)))
        (fst (modeResult (gridInputs (Fin 1, Fin 1)) (\<lambda>k. 0) 8 7)) < repulsionRadius"
    by (rule gridInputs_far) simp
  show ?thesis
    using h1 h2 h3 h4 h7
      grid_cube_corners [OF h1 h2 h3 h4 h5, of "\<lambda>k. 1 / 2"]
    by blast
qed

text \<open>
  Claim C10. Whatever the mode, when the position the mode computes for an instance
  has finite \<open>x\<close> and \<open>y\<close> equal to those of the pointer's world position, the distance
  is 0, which is below the repulsion radius, the two quotients by the distance are
  0 / 0, and the instance gets \<^verbatim>\<open>NaN\<close> for \<open>x\<close> and \<open>y\<close>; \<open>z\<close> is unchanged.
\<close>

theorem pointer_on_instance_NaN:
  assumes "i < length (instances mesh)"
    and "fst (modeResult p (\<lambda>k. rnd (3 * i + k)) (length (instances mesh)) i) = (Fin x, Fin y, z)"
    and "mouseWorld (pmouse p) = (Fin x, Fin y)"
  shows "mouseDist (pmouse p) (Fin x, Fin y, z) = Fin 0 \<and> Fin 0 < repulsionRadius \<and>
         iposition (instances (updateParticles mesh p rnd) ! i) = (NaN, NaN, z) \<and>
         \<not> isFinite (fst (iposition (instances (updateParticles mesh p rnd) ! i))) \<and>
         \<not> isFinite (fst (snd (iposition (instances (updateParticles mesh p rnd) ! i))))"
proof -
  obtain sc where ms: "modeResult p (\<lambda>k. rnd (3 * i + k)) (length (instances mesh)) i
                         = ((Fin x, Fin y, z), sc)"
    using assms(2) by (cases "modeResult p (\<lambda>k. rnd (3 * i + k)) (length (instances mesh)) i") simp
  have d: "mouseDist (pmouse p) (Fin x, Fin y, z) = Fin 0"
    using assms(3) by (simp add: mouseDist_def Let_def)
  have "iposition (instances (updateParticles mesh p rnd) ! i) = (NaN, NaN, z)"
    using assms(1) repulsion_at_pointer [OF assms(3)]
    by (simp add: updateParticles_instances particle_iposition ms)
  with d show ?thesis by (simp add: repulsionRadius_def)
qed

theorem pointer_on_instance_NaN_witness:
  "7 < length (instances mesh8) \<and>
   fst (modeResult (gridInputs (Fin 0, Fin 0)) (\<lambda>k. 0) (length (instances mesh8)) 7)
     = (Fin 0, Fin 0, Fin 0) \<and>
   mouseWorld (pmouse (gridInputs (Fin 0, Fin 0))) = (Fin 0, Fin 0) \<and>
   iposition (instances (updateParticles mesh8 (gridInputs (Fin 0, Fin 0)) (\<lambda>k. 0)) ! 7)
     = (NaN, NaN, Fin 0)"
proof -
  have h1: "7 < length (instances mesh8)" by (simp add: mesh8_def)
  have h2: "fst (modeResult (gridInputs (Fin 0, Fin 0)) (\<lambda>k. (\<lambda>k. 0) (3 * 7 + k))
                  (length (instances mesh8)) 7) = (Fin 0, Fin 0, Fin 0)"
    by (simp add: modeResult_def Let_def mesh8_def modePosition_grid_8 gridInputs_def
        silentAudio_def gridCorner_def)
  have h3: "mouseWorld (pmouse (gridInputs (Fin 0, Fin 0))) = (Fin 0, Fin 0)"
    by (simp add: gridInputs_def mouseWorld_def)
  show ?thesis
    using h1 h2 h3 pointer_on_instance_NaN [OF h1 h2 h3] by simp
qed

section \<open>Facts about Ferrofluid mode\<close>

lemma simpleNoise_Fin: "simpleNoise (Fin x) (Fin y) (Fin z) = Fin (noiseR x y z)"
  by (simp add: simpleNoise_def noiseR_def)

lemma angleIncrement_Fin: "angleIncrement = Fin (pi * 2 * ((1 + sqrt 5) / 2))"
  by (simp add: angleIncrement_def goldenRatio_def)

lemma ferro_ratio:
  assumes "i < count"
  shows "- 1 \<le> 1 - 2 * (real i / real count)" "1 - 2 * (real i / real count) \<le> 1"
    "real count \<noteq> 0"
proof -
  have "real i / real count \<le> 1" using assms by (simp add: divide_le_eq_1)
  then show "- 1 \<le> 1 - 2 * (real i / real count)" by simp
  have "0 \<le> real i / real count" by simp
  then show "1 - 2 * (real i / real count) \<le> 1" by simp
  show "real count \<noteq> 0" using assms by simp
qed

lemma modePosition_ferro:
  assumes "mode (pcfg p) = Ferrofluid" "ptime p = Fin t" "bass (paudio p) = Fin b"
    "pmood p = Fin m" "i < count"
  shows "modePosition p rnd count i nf sc =
     (case ferroDir count i of (sx, sy, sz) \<Rightarrow>
        ((Fin (sx * (12 + ferroExtra t b m count i)),
          Fin (sy * (12 + ferroExtra t b m count i)),
          Fin (sz * (12 + ferroExtra t b m count i))),
         sc * Fin (1.2 - ferroExtra t b m count i / 10)))"
  using assms(1-4) ferro_ratio [OF assms(5)]
  by (simp add: modePosition_def Let_def angleIncrement_Fin
      simpleNoise_Fin ferroDir_def ferroExtra_def num_def)

lemma ferroDir_unit:
  "(case ferroDir count i of (sx, sy, sz) \<Rightarrow> sx\<^sup>2 + sy\<^sup>2 + sz\<^sup>2) = 1"
proof -
  have "(sin a * cos z)\<^sup>2 + (sin a * sin z)\<^sup>2 + (cos a)\<^sup>2 = 1" for a z :: real
  proof -
    have "(sin a * cos z)\<^sup>2 + (sin a * sin z)\<^sup>2 = (sin a)\<^sup>2 * ((sin z)\<^sup>2 + (cos z)\<^sup>2)"
      by (simp only: power_mult_distrib distrib_left add.commute)
    also have "\<dots> = (sin a)\<^sup>2" by simp
    finally show ?thesis by simp
  qed
  then show ?thesis by (simp add: ferroDir_def Let_def)
qed

lemma ferroExtra_nonneg:
  assumes "0 \<le> b" "0 \<le> m"
  shows "0 \<le> ferroExtra t b m count i"
  using assms by (auto simp: ferroExtra_def split: prod.splits)

lemma norm3_scaled:
  assumes "sx\<^sup>2 + sy\<^sup>2 + sz\<^sup>2 = 1" "0 \<le> d"
  shows "norm3 (Fin (sx * d), Fin (sy * d), Fin (sz * d)) = Fin d"
proof -
  have "sx * d * (sx * d) + sy * d * (sy * d) + sz * d * (sz * d) = (sx\<^sup>2 + sy\<^sup>2 + sz\<^sup>2) * d\<^sup>2"
    by (simp add: power2_eq_square algebra_simps)
  also have "\<dots> = d\<^sup>2" using assms(1) by simp
  finally have e: "sx * d * (sx * d) + sy * d * (sy * d) + sz * d * (sz * d) = d\<^sup>2" .
  show ?thesis using assms(2) by (simp add: norm3_def e)
qed

text \<open>
  The Ferrofluid branch puts the instance at the point of the unit sphere scaled by
  \<^verbatim>\<open>displacement\<close>; with finite inputs the spike and the displacement are the closed
  forms over the reals.
\<close>

lemma modePosition_ferro_scaled:
  assumes "mode (pcfg p) = Ferrofluid"
  shows "fst (modePosition p rnd count i nf sc)
           = scaled (ferroPoint count i) (ferroDisplacement p count i)"
  using assms
  by (simp add: modePosition_def Let_def ferroPoint_def ferroSpike_def ferroDisplacement_def
      scaled_def)

lemma ferroPoint_Fin:
  assumes "i < count"
  shows "ferroPoint count i = (case ferroDir count i of (sx, sy, sz) \<Rightarrow> (Fin sx, Fin sy, Fin sz))"
  using ferro_ratio [OF assms]
  by (simp add: ferroPoint_def Let_def angleIncrement_Fin ferroDir_def num_def)

lemma ferroSpike_Fin:
  assumes "ptime p = Fin t" "i < count"
  shows "ferroSpike p count i =
     Fin (case ferroDir count i of (sx, sy, sz) \<Rightarrow>
            max 0 (noiseR (sx * 3 + t) (sy * 3 + t) (sz * 3)
                   + noiseR (sx * 10) (sy * 10 + t * 2) (sz * 10) * 0.5))"
  unfolding ferroSpike_def Let_def ferroPoint_Fin [OF assms(2)] assms(1)
  by (simp add: simpleNoise_Fin split: prod.splits)

lemma ferroSpike_nonneg:
  assumes "ptime p = Fin t" "i < count"
  shows "\<exists>sp. ferroSpike p count i = Fin sp \<and> 0 \<le> sp"
  unfolding ferroSpike_Fin [OF assms] by (simp split: prod.splits)

text \<open>
  Claim C3, amended. In Ferrofluid mode, for every instance \<open>i\<close> below the count, every
  time of magnitude at most \<open>2 ^ 1000\<close>, every bass within 0 and 255, every mood
  within 0 and 1 and every pointer: the spike is not negative; the radial displacement
  \<^verbatim>\<open>spike * noiseAmp * (0.5 + mood)\<close> added to the base radius 12 is not negative, so
  \<^verbatim>\<open>displacement\<close> is at least 12; the position the mode computes is the point of the
  unit sphere scaled by \<^verbatim>\<open>displacement\<close>, and its distance from the origin is above
  11.99 (over the reals it is \<^verbatim>\<open>displacement\<close>; the sines and cosines of the point are
  rounded, which can bring the computed distance an ulp below 12); and when the
  distance of that position to the pointer is not below the repulsion radius, it is
  the final position of the instance.
\<close>

theorem ferro_displacement_nonneg:
  assumes "mode (pcfg p) = Ferrofluid" "ptime p = Fin t" "\<bar>t\<bar> \<le> 2 ^ 1000"
    "bass (paudio p) = Fin b" "0 \<le> b" "b \<le> 255" "pmood p = Fin m" "0 \<le> m" "m \<le> 1"
    "i < count"
  shows "Fin 0 \<le> ferroSpike p count i \<and>
         Fin 0 \<le> ferroSpike p count i * (Fin 4 + (bass (paudio p) / Fin 255) * Fin 8)
                    * (Fin 0.5 + pmood p) \<and>
         ferroDisplacement p count i
           = Fin 12 + (ferroSpike p count i * (Fin 4 + (bass (paudio p) / Fin 255) * Fin 8)
                         * (Fin 0.5 + pmood p)) \<and>
         Fin 12 \<le> ferroDisplacement p count i \<and>
         fst (modeResult p rnd count i)
           = scaled (ferroPoint count i) (ferroDisplacement p count i) \<and>
         Fin 11.99 < norm3 (fst (modeResult p rnd count i)) \<and>
         (\<not> mouseDist (pmouse p) (fst (modeResult p rnd count i)) < repulsionRadius \<longrightarrow>
            iposition (particle p rnd count i) = fst (modeResult p rnd count i))"
proof -
  obtain sx sy sz where d: "ferroDir count i = (sx, sy, sz)" by (cases "ferroDir count i")
  have u: "sx\<^sup>2 + sy\<^sup>2 + sz\<^sup>2 = 1" using ferroDir_unit [of count i] by (simp add: d)
  have e: "0 \<le> ferroExtra t b m count i" using assms(5,8) by (rule ferroExtra_nonneg)
  have mr: "fst (modeResult p rnd count i) =
              (Fin (sx * (12 + ferroExtra t b m count i)),
               Fin (sy * (12 + ferroExtra t b m count i)),
               Fin (sz * (12 + ferroExtra t b m count i)))"
    by (simp add: modeResult_def Let_def modePosition_ferro [OF assms(1,2,4,7,10)] d)
  have "norm3 (fst (modeResult p rnd count i)) = Fin (12 + ferroExtra t b m count i)"
    unfolding mr using u e by (intro norm3_scaled) simp_all
  then have 6: "Fin 11.99 < norm3 (fst (modeResult p rnd count i))" using e by simp
  obtain sp where sp: "ferroSpike p count i = Fin sp" "0 \<le> sp"
    using ferroSpike_nonneg [OF assms(2,10)] by blast
  have amp: "0 \<le> sp * (4 + b / 255 * 8) * (0.5 + m)" using sp(2) assms(5,8) by simp
  have 1: "Fin 0 \<le> ferroSpike p count i" unfolding sp(1) using sp(2) by simp
  have 2: "Fin 0 \<le> ferroSpike p count i * (Fin 4 + (bass (paudio p) / Fin 255) * Fin 8)
                      * (Fin 0.5 + pmood p)"
    unfolding sp(1) assms(4,7) using amp by simp
  have 3: "ferroDisplacement p count i
             = Fin 12 + (ferroSpike p count i * (Fin 4 + (bass (paudio p) / Fin 255) * Fin 8)
                           * (Fin 0.5 + pmood p))"
    by (simp add: ferroDisplacement_def Let_def)
  have 4: "Fin 12 \<le> ferroDisplacement p count i"
    unfolding 3 sp(1) assms(4,7) using amp by simp
  have 5: "fst (modeResult p rnd count i)
             = scaled (ferroPoint count i) (ferroDisplacement p count i)"
    by (simp add: modeResult_def Let_def modePosition_ferro_scaled [OF assms(1)])
  have far: "iposition (particle p rnd count i) = fst (modeResult p rnd count i)"
    if "\<not> mouseDist (pmouse p) (fst (modeResult p rnd count i)) < repulsionRadius"
    using that by (simp add: particle_iposition repulsion_outside)
  show ?thesis using 1 2 3 4 5 6 far by blast
qed

theorem ferro_displacement_nonneg_witness:
  "mode (pcfg (ferroInputs (Fin 1, Fin 1))) = Ferrofluid \<and>
   ptime (ferroInputs (Fin 1, Fin 1)) = Fin 0 \<and> \<bar>0 :: real\<bar> \<le> 2 ^ 1000 \<and>
   bass (paudio (ferroInputs (Fin 1, Fin 1))) = Fin 0 \<and> (0 :: real) \<le> 0 \<and> (0 :: real) \<le> 255 \<and>
   pmood (ferroInputs (Fin 1, Fin 1)) = Fin 0 \<and> (0 :: real) \<le> 1 \<and> (0 :: nat) < 2 \<and>
   Fin 12 \<le> ferroDisplacement (ferroInputs (Fin 1, Fin 1)) 2 0 \<and>
   fst (modeResult (ferroInputs (Fin 1, Fin 1)) (\<lambda>k. 0) 2 0)
     = (Fin 0, Fin 0, ferroDisplacement (ferroInputs (Fin 1, Fin 1)) 2 0) \<and>
   \<not> mouseDist (pmouse (ferroInputs (Fin 1, Fin 1)))
        (fst (modeResult (ferroInputs (Fin 1, Fin 1)) (\<lambda>k. 0) 2 0)) < repulsionRadius \<and>
   iposition (particle (ferroInputs (Fin 1, Fin 1)) (\<lambda>k. 0) 2 0)
     = fst (modeResult (ferroInputs (Fin 1, Fin 1)) (\<lambda>k. 0) 2 0)"
proof -
  let ?p = "ferroInputs (Fin 1, Fin 1)"
  have h1: "mode (pcfg ?p) = Ferrofluid" and h2: "ptime ?p = Fin 0"
    and h4: "bass (paudio ?p) = Fin 0" and h7: "pmood ?p = Fin 0"
    by (simp_all add: ferroInputs_def silentAudio_def)
  have h3: "\<bar>0 :: real\<bar> \<le> 2 ^ 1000" and h5: "(0 :: real) \<le> 0" and h6: "(0 :: real) \<le> 255"
    and h9: "(0 :: real) \<le> 1" and h10: "(0 :: nat) < 2"
    by simp_all
  note th = ferro_displacement_nonneg [OF h1 h2 h3 h4 h5 h6 h7 h5 h9 h10, of "\<lambda>k. 0"]
  from th have d: "Fin 12 \<le> ferroDisplacement ?p 2 0"
    and mr: "fst (modeResult ?p (\<lambda>k. 0) 2 0) = scaled (ferroPoint 2 0) (ferroDisplacement ?p 2 0)"
    by blast+
  obtain sp where sp: "ferroSpike ?p 2 0 = Fin sp"
    using ferroSpike_nonneg [OF h2 h10] by blast
  from th have "ferroDisplacement ?p 2 0
                  = Fin 12 + (ferroSpike ?p 2 0 * (Fin 4 + (bass (paudio ?p) / Fin 255) * Fin 8)
                                * (Fin 0.5 + pmood ?p))"
    by blast
  then obtain r where r: "ferroDisplacement ?p 2 0 = Fin r"
    unfolding sp h4 h7 by simp
  have pt: "ferroPoint 2 0 = (Fin 0, Fin 0, Fin 1)"
    by (simp add: ferroPoint_def Let_def num_def angleIncrement_Fin)
  have mr': "fst (modeResult ?p (\<lambda>k. 0) 2 0) = (Fin 0, Fin 0, ferroDisplacement ?p 2 0)"
    unfolding mr pt r by (simp add: scaled_def)
  have far: "\<not> mouseDist (pmouse ?p) (fst (modeResult ?p (\<lambda>k. 0) 2 0)) < repulsionRadius"
  proof -
    have "(10 :: real) \<le> sqrt (20\<^sup>2)" by simp
    also have "\<dots> \<le> sqrt ((0 - 1 * 20) * (0 - 1 * 20) + (0 - 1 * 20) * (0 - 1 * 20))"
      by (intro real_sqrt_le_mono) (simp add: power2_eq_square)
    finally show ?thesis
      unfolding mr' r by (simp add: ferroInputs_def mouseDist_Fin repulsionRadius_def)
  qed
  from th far have fin: "iposition (particle ?p (\<lambda>k. 0) 2 0) = fst (modeResult ?p (\<lambda>k. 0) 2 0)"
    by blast
  show ?thesis using h1 h2 h4 h7 d mr' far fin by simp
qed

lemma sin_cos_sum_bound: "sin a * cos b + sin b \<le> (3 / 2 :: real)"
proof -
  have 1: "sin a * cos b \<le> \<bar>cos b\<bar>"
  proof -
    have "sin a * cos b \<le> \<bar>sin a * cos b\<bar>" by simp
    also have "\<dots> = \<bar>sin a\<bar> * \<bar>cos b\<bar>" by (simp add: abs_mult)
    also have "\<dots> \<le> 1 * \<bar>cos b\<bar>" by (intro mult_right_mono) simp_all
    finally show ?thesis by simp
  qed
  have sq: "(\<bar>cos b\<bar> + sin b)\<^sup>2 \<le> 2"
  proof -
    have "0 \<le> (\<bar>cos b\<bar> - sin b)\<^sup>2" by simp
    then have "2 * \<bar>cos b\<bar> * sin b \<le> \<bar>cos b\<bar>\<^sup>2 + (sin b)\<^sup>2"
      by (simp add: power2_diff)
    moreover have "\<bar>cos b\<bar>\<^sup>2 + (sin b)\<^sup>2 = 1" by simp
    ultimately show ?thesis by (simp add: power2_sum)
  qed
  have "\<bar>cos b\<bar> + sin b \<le> 3 / 2"
  proof (rule ccontr)
    assume "\<not> \<bar>cos b\<bar> + sin b \<le> 3 / 2"
    then have "3 / 2 < \<bar>cos b\<bar> + sin b" by simp
    then have "(3 / 2)\<^sup>2 < (\<bar>cos b\<bar> + sin b)\<^sup>2"
      by (intro power_strict_mono) simp_all
    with sq show False by (simp add: power2_eq_square)
  qed
  with 1 show ?thesis by linarith
qed

lemma noiseR_flat_bound: "noiseR x y 0 \<le> 3 / 2"
  using sin_cos_sum_bound [of x y] by (simp add: noiseR_def)

lemma ferroDir_2_1: "\<exists>c s. ferroDir 2 1 = (c, s, 0) \<and> c\<^sup>2 + s\<^sup>2 = 1"
proof -
  have "arccos (1 - 2 * (real 1 / real 2)) = pi / 2" by (simp add: arccos_0)
  then show ?thesis by (simp add: ferroDir_def Let_def)
qed

lemma ferroExtra_2_1: "0 \<le> ferroExtra 0 0 0 2 1 \<and> ferroExtra 0 0 0 2 1 \<le> 9 / 2"
proof -
  obtain c s where d: "ferroDir 2 1 = (c, s, 0)" using ferroDir_2_1 by blast
  define q where "q = max 0 (noiseR (c * 3) (s * 3) 0 + noiseR (c * 10) (s * 10) 0 * 0.5)"
  have "noiseR (c * 3) (s * 3) 0 + noiseR (c * 10) (s * 10) 0 * 0.5 \<le> 9 / 4"
    using noiseR_flat_bound [of "c * 3" "s * 3"] noiseR_flat_bound [of "c * 10" "s * 10"]
    by simp
  then have q: "0 \<le> q" "q \<le> 9 / 4" unfolding q_def by (simp_all add: max_def)
  have "ferroExtra 0 0 0 2 1 = q * 2" unfolding ferroExtra_def d q_def by simp
  then show ?thesis using q by simp
qed

lemma repulsion_radial:
  assumes "0 < d" "x\<^sup>2 + y\<^sup>2 = d\<^sup>2"
  shows "repulsion (Fin (x * (d + 0.2) / d / 20), Fin (y * (d + 0.2) / d / 20))
           ((Fin x, Fin y, z), sc)
         = ((Fin (x * (1 - 4.9 / d)), Fin (y * (1 - 4.9 / d)), z), sc * Fin 1.5)"
proof -
  let ?mx = "x * (d + 0.2) / d / 20" and ?my = "y * (d + 0.2) / d / 20"
  have dx: "x - ?mx * 20 = - (0.2 * x / d)" using assms(1) by (simp add: field_simps)
  have dy: "y - ?my * 20 = - (0.2 * y / d)" using assms(1) by (simp add: field_simps)
  have "(x - ?mx * 20) * (x - ?mx * 20) + (y - ?my * 20) * (y - ?my * 20)
          = (0.2 * x / d)\<^sup>2 + (0.2 * y / d)\<^sup>2"
    unfolding dx dy by (simp add: power2_eq_square)
  also have "\<dots> = 0.2\<^sup>2 * ((x\<^sup>2 + y\<^sup>2) / d\<^sup>2)"
    by (simp only: power_divide power_mult_distrib add_divide_distrib distrib_left times_divide_eq_right)
  also have "\<dots> = 0.2\<^sup>2" using assms by simp
  finally have "sqrt ((x - ?mx * 20) * (x - ?mx * 20) + (y - ?my * 20) * (y - ?my * 20))
                  = sqrt (0.2\<^sup>2)"
    by (rule arg_cong)
  also have "sqrt (0.2\<^sup>2) = (0.2 :: real)" by simp
  finally have "sqrt ((x - ?mx * 20) * (x - ?mx * 20) + (y - ?my * 20) * (y - ?my * 20)) = 0.2" .
  then have dist: "mouseDist (Fin ?mx, Fin ?my) (Fin x, Fin y, z) = Fin 0.2"
    by (simp only: mouseDist_Fin)
  have wx: "fst (mouseWorld (Fin ?mx, Fin ?my)) = Fin (?mx * 20)"
    and wy: "snd (mouseWorld (Fin ?mx, Fin ?my)) = Fin (?my * 20)"
    by (simp_all add: mouseWorld_def)
  have ex: "x + - (0.2 * x / d) / 0.2 * ((1 - 0.2 / 10) * 5) = x * (1 - 4.9 / d)"
    using assms(1) by (simp add: field_simps)
  have ey: "y + - (0.2 * y / d) / 0.2 * ((1 - 0.2 / 10) * 5) = y * (1 - 4.9 / d)"
    using assms(1) by (simp add: field_simps)
  show ?thesis
    unfolding repulsion_def Let_def dist fst_conv snd_conv wx wy Fin_minus dx dy repulsionRadius_def
    using ex ey by simp
qed

text \<open>
  Claim C3, as stated, fails: the pointer repulsion runs after the mode branch and can
  push an instance towards the origin. With 2 instances at time 0, silence and mood
  0, instance 1 lies in the plane \<open>z = 0\<close> at a distance between 12 and 16.5 from the
  origin; the pointer 0.2 beyond it pushes it 4.9 inwards, strictly inside the sphere
  of radius 12.
\<close>

theorem ferro_pushed_inside_counterexample:
  "norm3 (iposition (particle (ferroInputs ferroPointer) (\<lambda>k. 0) 2 1)) < Fin 12"
proof -
  obtain c s where dir: "ferroDir 2 1 = (c, s, 0)" and u: "c\<^sup>2 + s\<^sup>2 = 1"
    using ferroDir_2_1 by blast
  define d where "d = 12 + ferroExtra 0 0 0 2 1"
  have d: "12 \<le> d" "d \<le> 33 / 2" using ferroExtra_2_1 by (simp_all add: d_def)
  have mr: "modeResult (ferroInputs m) (\<lambda>k. 0) 2 1
              = ((Fin (c * d), Fin (s * d), Fin 0),
                 particleSize (pcfg (ferroInputs m))
                   * (Fin 0.5 + normalizedFreqOf (ferroInputs m) 2 1)
                   * Fin (1.2 - ferroExtra 0 0 0 2 1 / 10))" for m
  proof -
    have "modePosition (ferroInputs m) (\<lambda>k. 0) 2 1 nf sc
            = ((Fin (c * d), Fin (s * d), Fin 0), sc * Fin (1.2 - ferroExtra 0 0 0 2 1 / 10))"
      for nf sc
      by (subst modePosition_ferro [where t = 0 and b = 0 and m = 0])
         (simp_all add: ferroInputs_def silentAudio_def dir [simplified] d_def)
    then show ?thesis by (simp add: modeResult_def Let_def)
  qed
  have sq: "(c * d)\<^sup>2 + (s * d)\<^sup>2 = d\<^sup>2"
  proof -
    have "(c * d)\<^sup>2 + (s * d)\<^sup>2 = (c\<^sup>2 + s\<^sup>2) * d\<^sup>2"
      by (simp add: power_mult_distrib distrib_right)
    then show ?thesis using u by simp
  qed
  have rt: "sqrt ((c * d)\<^sup>2 + (s * d)\<^sup>2) = d" unfolding sq using d(1) by simp
  have ptr: "ferroPointer = (Fin (c * d * (d + 0.2) / d / 20), Fin (s * d * (d + 0.2) / d / 20))"
    unfolding ferroPointer_def mr fst_conv by (simp add: rt)
  have pos: "iposition (particle (ferroInputs ferroPointer) (\<lambda>k. 0) 2 1)
               = (Fin (c * d * (1 - 4.9 / d)), Fin (s * d * (1 - 4.9 / d)), Fin 0)"
  proof -
    have "0 < d" using d(1) by simp
    then have rep: "repulsion ferroPointer ((Fin (c * d), Fin (s * d), Fin 0), sc)
            = ((Fin (c * d * (1 - 4.9 / d)), Fin (s * d * (1 - 4.9 / d)), Fin 0), sc * Fin 1.5)"
      for sc
      unfolding ptr using sq by (rule repulsion_radial)
    have pm: "pmouse (ferroInputs ferroPointer) = ferroPointer"
      by (simp add: ferroInputs_def)
    show ?thesis unfolding particle_iposition mr pm rep by simp
  qed
  have fac: "d * (1 - 4.9 / d) = d - 4.9" using d(1) by (simp add: field_simps)
  have cx: "c * d * (1 - 4.9 / d) = c * (d - 4.9)" by (simp only: mult.assoc fac)
  have cy: "s * d * (1 - 4.9 / d) = s * (d - 4.9)" by (simp only: mult.assoc fac)
  have "c\<^sup>2 + s\<^sup>2 + 0\<^sup>2 = 1" "0 \<le> d - 4.9" using u d(1) by simp_all
  from norm3_scaled [OF this]
  have n3: "norm3 (Fin (c * (d - 4.9)), Fin (s * (d - 4.9)), Fin 0) = Fin (d - 4.9)"
    by simp
  show ?thesis unfolding pos cx cy n3 using d(2) by simp
qed

section \<open>Facts about Surface mode\<close>

lemma surfaceLoop_step:
  "i < n \<Longrightarrow>
   surfaceLoop fr si n orig pos i h =
     surfaceLoop fr si n orig pos (Suc i)
       (h(pos := setXYZ fr (h pos) i
          (readAt (h orig) (i * 3)
             * totalScale si i (readAt (h orig) (i * 3)) (readAt (h orig) (i * 3 + 1))
                 (readAt (h orig) (i * 3 + 2)))
          (readAt (h orig) (i * 3 + 1)
             * totalScale si i (readAt (h orig) (i * 3)) (readAt (h orig) (i * 3 + 1))
                 (readAt (h orig) (i * 3 + 2)))
          (readAt (h orig) (i * 3 + 2)
             * totalScale si i (readAt (h orig) (i * 3)) (readAt (h orig) (i * 3 + 1))
                 (readAt (h orig) (i * 3 + 2)))))"
  by (subst surfaceLoop.simps) (simp only: Let_def if_True)

lemma surfaceLoop_done: "\<not> i < n \<Longrightarrow> surfaceLoop fr si n orig pos i h = h"
  by (subst surfaceLoop.simps) simp

lemma setXYZ_length [simp]: "length (setXYZ fr a i x y z) = length a"
  by (simp add: setXYZ_def)

lemma setXYZ_below: "idx < 3 * i \<Longrightarrow> setXYZ fr a i x y z ! idx = a ! idx"
  by (simp add: setXYZ_def)

lemma surfaceLoop_other:
  "a \<noteq> pos \<Longrightarrow> surfaceLoop fr si n orig pos i h a = h a"
proof (induction fr si n orig pos i h rule: surfaceLoop.induct)
  case (1 fr si n orig pos i h)
  let ?h = "h(pos := setXYZ fr (h pos) i
          (readAt (h orig) (i * 3)
             * totalScale si i (readAt (h orig) (i * 3)) (readAt (h orig) (i * 3 + 1))
                 (readAt (h orig) (i * 3 + 2)))
          (readAt (h orig) (i * 3 + 1)
             * totalScale si i (readAt (h orig) (i * 3)) (readAt (h orig) (i * 3 + 1))
                 (readAt (h orig) (i * 3 + 2)))
          (readAt (h orig) (i * 3 + 2)
             * totalScale si i (readAt (h orig) (i * 3)) (readAt (h orig) (i * 3 + 1))
                 (readAt (h orig) (i * 3 + 2))))"
  show ?case
  proof (cases "i < n")
    case True
    have "surfaceLoop fr si n orig pos i h a = surfaceLoop fr si n orig pos (Suc i) ?h a"
      by (simp only: surfaceLoop_step [OF True])
    also have "\<dots> = ?h a"
      by (rule "1.IH" [OF True refl refl refl refl "1.prems"])
    also have "\<dots> = h a" using "1.prems" by simp
    finally show ?thesis .
  next
    case False
    then show ?thesis by (simp add: surfaceLoop_done)
  qed
qed

lemma surfaceLoop_length:
  "length (surfaceLoop fr si n orig pos i h pos) = length (h pos)"
proof (induction fr si n orig pos i h rule: surfaceLoop.induct)
  case (1 fr si n orig pos i h)
  let ?h = "h(pos := setXYZ fr (h pos) i
          (readAt (h orig) (i * 3)
             * totalScale si i (readAt (h orig) (i * 3)) (readAt (h orig) (i * 3 + 1))
                 (readAt (h orig) (i * 3 + 2)))
          (readAt (h orig) (i * 3 + 1)
             * totalScale si i (readAt (h orig) (i * 3)) (readAt (h orig) (i * 3 + 1))
                 (readAt (h orig) (i * 3 + 2)))
          (readAt (h orig) (i * 3 + 2)
             * totalScale si i (readAt (h orig) (i * 3)) (readAt (h orig) (i * 3 + 1))
                 (readAt (h orig) (i * 3 + 2))))"
  show ?case
  proof (cases "i < n")
    case True
    have "length (surfaceLoop fr si n orig pos i h pos)
            = length (surfaceLoop fr si n orig pos (Suc i) ?h pos)"
      by (simp only: surfaceLoop_step [OF True])
    also have "\<dots> = length (?h pos)"
      by (rule "1.IH" [OF True refl refl refl refl])
    also have "\<dots> = length (h pos)" by simp
    finally show ?thesis .
  next
    case False
    then show ?thesis by (simp add: surfaceLoop_done)
  qed
qed

lemma surfaceLoop_below:
  "idx < 3 * i \<Longrightarrow> surfaceLoop fr si n orig pos i h pos ! idx = h pos ! idx"
proof (induction fr si n orig pos i h rule: surfaceLoop.induct)
  case (1 fr si n orig pos i h)
  let ?h = "h(pos := setXYZ fr (h pos) i
          (readAt (h orig) (i * 3)
             * totalScale si i (readAt (h orig) (i * 3)) (readAt (h orig) (i * 3 + 1))
                 (readAt (h orig) (i * 3 + 2)))
          (readAt (h orig) (i * 3 + 1)
             * totalScale si i (readAt (h orig) (i * 3)) (readAt (h orig) (i * 3 + 1))
                 (readAt (h orig) (i * 3 + 2)))
          (readAt (h orig) (i * 3 + 2)
             * totalScale si i (readAt (h orig) (i * 3)) (readAt (h orig) (i * 3 + 1))
                 (readAt (h orig) (i * 3 + 2))))"
  show ?case
  proof (cases "i < n")
    case True
    have lt: "idx < 3 * Suc i" using "1.prems" by simp
    have "surfaceLoop fr si n orig pos i h pos ! idx
            = surfaceLoop fr si n orig pos (Suc i) ?h pos ! idx"
      by (simp only: surfaceLoop_step [OF True])
    also have "\<dots> = ?h pos ! idx"
      by (rule "1.IH" [OF True refl refl refl refl lt])
    also have "\<dots> = h pos ! idx" using "1.prems" by (simp add: setXYZ_below)
    finally show ?thesis .
  next
    case False
    then show ?thesis by (simp add: surfaceLoop_done)
  qed
qed

lemma setXYZ_at:
  assumes "3 * i + 2 < length a"
  shows "setXYZ fr a i x y z ! (3 * i) = fr x" "setXYZ fr a i x y z ! (3 * i + 1) = fr y"
    "setXYZ fr a i x y z ! (3 * i + 2) = fr z"
  using assms by (simp_all add: setXYZ_def mult.commute)

lemma surfaceLoop_vertex:
  assumes "orig \<noteq> pos" "i \<le> j" "j < n" "3 * n \<le> length (h pos)" "k < 3"
  shows "surfaceLoop fr si n orig pos i h pos ! (3 * j + k) = scaledVertex fr si (h orig) j k"
  using assms
proof (induction fr si n orig pos i h rule: surfaceLoop.induct)
  case (1 fr si n orig pos i h)
  have i: "i < n" using "1.prems" by simp
  let ?ox = "readAt (h orig) (i * 3)" and ?oy = "readAt (h orig) (i * 3 + 1)"
    and ?oz = "readAt (h orig) (i * 3 + 2)"
  let ?ts = "totalScale si i ?ox ?oy ?oz"
  let ?h = "h(pos := setXYZ fr (h pos) i (?ox * ?ts) (?oy * ?ts) (?oz * ?ts))"
  have step: "surfaceLoop fr si n orig pos i h = surfaceLoop fr si n orig pos (Suc i) ?h"
    using i by (rule surfaceLoop_step)
  have ho: "?h orig = h orig" using "1.prems"(1) by simp
  show ?case
  proof (cases "j = i")
    case False
    then have "Suc i \<le> j" using "1.prems"(2) by simp
    moreover have "3 * n \<le> length (?h pos)" using "1.prems"(4) by simp
    ultimately have "surfaceLoop fr si n orig pos (Suc i) ?h pos ! (3 * j + k)
                      = scaledVertex fr si (?h orig) j k"
      using "1.IH" [OF i refl refl refl refl "1.prems"(1) _ "1.prems"(3) _ "1.prems"(5)]
      by blast
    then show ?thesis unfolding step ho .
  next
    case True
    have lt: "3 * i + 2 < length (h pos)" using i "1.prems"(4) by simp
    have "3 * j + k < 3 * Suc i" using True "1.prems"(5) by simp
    then have "surfaceLoop fr si n orig pos (Suc i) ?h pos ! (3 * j + k) = ?h pos ! (3 * j + k)"
      by (rule surfaceLoop_below)
    also have "\<dots> = scaledVertex fr si (h orig) j k"
    proof -
      consider "k = 0" | "k = 1" | "k = 2" using "1.prems"(5) by linarith
      then show ?thesis
        using setXYZ_at [OF lt, of fr "?ox * ?ts" "?oy * ?ts" "?oz * ?ts"] True
        by cases (simp_all add: scaledVertex_def mult.commute)
    qed
    finally show ?thesis unfolding step .
  qed
qed

lemma animate_buffers:
  "positionArray (animate three c a rnd s) = positionArray s"
  "originalPositionsRef (animate three c a rnd s) = originalPositionsRef s"
  by (simp_all add: animate_def Let_def)

lemma animate_timeRef: "timeRef (animate three c a rnd s) = timeRef s + Fin 0.005"
  by (simp add: animate_def Let_def)

lemma animate_mouseRef:
  "mouseRef (animate three c a rnd s) = lerp2 (mouseRef s) (targetMouseRef s) (Fin 0.1)"
  by (simp add: animate_def Let_def)

lemma animate_heap:
  "heap (animate three c a rnd s) =
     (if mode c = Surface then
        surfaceLoop (fround three) (surfaceInputsOf c a (animate three c a rnd s))
          (length (heap s (positionArray s)) div 3)
          (originalPositionsRef s) (positionArray s) 0 (heap s)
      else heap s)"
  by (simp add: animate_def Let_def surfaceInputsOf_def)

lemma frame_buffersOk:
  assumes "buffersOk g s"
  shows "buffersOk g (frame three f s)"
proof -
  obtain t where t: "timeRef s = Fin t" using assms isFiniteE unfolding buffersOk_def by blast
  show ?thesis
    using assms t
    by (simp add: buffersOk_def frame_def animate_buffers animate_heap surfaceLoop_other
        surfaceLoop_length animate_timeRef)
qed

lemma frames_buffersOk:
  assumes "buffersOk g s"
  shows "buffersOk g (frames three fs s)"
  using assms by (induction fs arbitrary: s) (simp_all add: frame_buffersOk)

lemma initScene_buffersOk: "buffersOk g (initScene three c g)"
  by (simp add: buffersOk_def initScene_def)

lemma frame_surface_vertex:
  assumes "buffersOk g s" "mode (fconfig f) = Surface" "j < length g div 3" "k < 3"
  shows "heap (frame three f s) 0 ! (3 * j + k)
           = scaledVertex (fround three)
               (surfaceInputsOf (fconfig f) (faudio f) (frame three f s)) g j k"
proof -
  have b: "positionArray s = 0" "originalPositionsRef s = 1" "heap s 1 = g"
    "length (heap s 0) = length g"
    using assms(1) by (simp_all add: buffersOk_def)
  have n: "3 * (length g div 3) \<le> length (heap s 0)" using b(4) by simp
  have "surfaceLoop fr si (length g div 3) 1 0 0 (heap s) 0 ! (3 * j + k)
          = scaledVertex fr si (heap s 1) j k" for fr si
    using n assms(3,4) by (intro surfaceLoop_vertex) simp_all
  then show ?thesis
    using assms(2) b by (simp add: frame_def animate_heap)
qed

lemma sin_cos_ge: "- 1 \<le> sin a * cos (b :: real)"
proof -
  have "\<bar>sin a * cos b\<bar> \<le> 1 * 1"
    unfolding abs_mult by (intro mult_mono) simp_all
  then show ?thesis by (simp add: abs_le_iff)
qed

lemma sin_cos_le: "sin a * cos (b :: real) \<le> 1"
proof -
  have "\<bar>sin a * cos b\<bar> \<le> 1 * 1"
    unfolding abs_mult by (intro mult_mono) simp_all
  then show ?thesis by (simp add: abs_le_iff)
qed

lemma noiseR_ge: "- 3 \<le> noiseR x y z"
  using sin_cos_ge [of x y] sin_cos_ge [of y z] sin_cos_ge [of z x]
  by (simp add: noiseR_def)

lemma noiseR_le: "noiseR x y z \<le> 3"
  using sin_cos_le [of x y] sin_cos_le [of y z] sin_cos_le [of z x]
  by (simp add: noiseR_def)

lemma byte_range: "0 \<le> (unsigned (w :: 8 word) :: real) \<and> (unsigned w :: real) \<le> 255"
proof -
  have e: "(unsigned w :: real) = real (unat w)" by simp
  have "unat w < 2 ^ LENGTH(8)" by (rule unsigned_less)
  then have "unat w \<le> 255" by simp
  then have "real (unat w) \<le> real 255" by (simp only: of_nat_le_iff)
  moreover have "0 \<le> real (unat w)" by (rule of_nat_0_le_iff)
  ultimately show ?thesis unfolding e by simp
qed

lemma freqVal_Fin:
  assumes "data \<noteq> []"
  shows "\<exists>v. freqVal data i = Fin v \<and> 0 \<le> v \<and> v \<le> 1"
proof -
  let ?v = "(unsigned (data ! (i mod length data)) :: real) / 255"
  have "freqVal data i = Fin ?v" using assms by (simp add: freqVal_def num_def)
  moreover have "0 \<le> ?v" using byte_range [of "data ! (i mod length data)"] by simp
  moreover have "?v \<le> 1" using byte_range [of "data ! (i mod length data)"] by simp
  ultimately show ?thesis by blast
qed

text \<open>
  \<^verbatim>\<open>mouseFactor\<close> is a finite number that is not negative, whatever the pointer and
  the vertex are: a distance that is \<^verbatim>\<open>NaN\<close> or infinite fails the test against 8.
\<close>

lemma Math_sqrt_cases:
  "(\<exists>r. Math_sqrt x = Fin r \<and> 0 \<le> r) \<or> Math_sqrt x = PInf \<or> Math_sqrt x = NaN"
  by (cases x) simp_all

lemma mouseFactor_nonneg: "\<exists>mf. mouseFactor si ox oy = Fin mf \<and> 0 \<le> mf"
proof -
  let ?d = "Math_sqrt (pow2 (ox - fst (smouse si) * Fin 15) + pow2 (oy - snd (smouse si) * Fin 15))"
  have e: "mouseFactor si ox oy = (if ?d < Fin 8 then (Fin 1 - ?d / Fin 8) * Fin 2.0 else Fin 0)"
    by (simp add: mouseFactor_def Let_def)
  consider r where "?d = Fin r" "0 \<le> r" | "?d = PInf" | "?d = NaN"
    using Math_sqrt_cases by blast
  then show ?thesis
  proof cases
    case 1
    then show ?thesis unfolding e by simp
  next
    case 2
    then show ?thesis unfolding e by simp
  next
    case 3
    then show ?thesis unfolding e by simp
  qed
qed

lemma surfaceDisplacement_ge:
  assumes "surfaceInputsOk si" "stime si = Fin t" "isFinite ox" "isFinite oy" "isFinite oz"
  shows "\<exists>v. surfaceDisplacement si i ox oy oz = Fin v \<and> 0.4 \<le> v"
proof -
  obtain x where x: "ox = Fin x" using assms(3) isFiniteE by blast
  obtain y where y: "oy = Fin y" using assms(4) isFiniteE by blast
  obtain z where z: "oz = Fin z" using assms(5) isFiniteE by blast
  obtain se where se: "ssensitivity si = Fin se" "0 \<le> se"
    using assms(1) nonNegativeE unfolding surfaceInputsOk_def by blast
  obtain m where m: "smood si = Fin m" "0 \<le> m" "m \<le> 1"
    using assms(1) unfolding surfaceInputsOk_def inUnit_def by (cases "smood si") auto
  have "sdata si \<noteq> []" using assms(1) by (simp add: surfaceInputsOk_def)
  then obtain fv where fv: "freqVal (sdata si) i = Fin fv" "0 \<le> fv" "fv \<le> 1"
    using freqVal_Fin by blast
  define n where "n = noiseR (x * 0.2 + t) (y * 0.2 + t) (z * 0.2)"
  have n: "- 3 \<le> n" unfolding n_def by (rule noiseR_ge)
  have ts: "surfaceDisplacement si i ox oy oz = Fin (1 + fv * 0.5 * se + n * 0.2 * m)"
    unfolding surfaceDisplacement_def Let_def x y z assms(2) se(1) m(1) fv(1) simpleNoise_Fin
      jsnum.simps plus_jsnum.simps times_jsnum.simps n_def
    by simp
  have "0 \<le> fv * 0.5 * se" using fv(2) se(2) by simp
  moreover have "- 3 \<le> n * m"
  proof -
    have "- 3 * m \<le> n * m" using n m(2) by (intro mult_right_mono) simp_all
    moreover have "- 3 \<le> - 3 * m" using m(3) by simp
    ultimately show ?thesis by linarith
  qed
  ultimately have "0.4 \<le> 1 + fv * 0.5 * se + n * 0.2 * m" by simp
  with ts show ?thesis by blast
qed

lemma totalScale_positive:
  assumes "surfaceInputsOk si" "isFinite (stime si)" "isFinite ox" "isFinite oy" "isFinite oz"
  shows "Fin 0 < surfaceDisplacement si i ox oy oz + mouseFactor si ox oy"
proof -
  obtain t where t: "stime si = Fin t" using assms(2) isFiniteE by blast
  obtain v where v: "surfaceDisplacement si i ox oy oz = Fin v" "0.4 \<le> v"
    using surfaceDisplacement_ge [OF assms(1) t assms(3,4,5)] by blast
  obtain mf where mf: "mouseFactor si ox oy = Fin mf" "0 \<le> mf"
    using mouseFactor_nonneg by blast
  show ?thesis unfolding v(1) mf(1) using v(2) mf(2) by simp
qed

text \<open>
  The inputs of the vertex loop in the first frame with a spectrum of 256 bins that
  are all 255, for any sensitivity; and the two scalars of a vertex on the \<open>x\<close> axis
  in that frame.
\<close>

lemma loudAudio_eq:
  "loudAudio = \<lparr>frequencyData = replicate 256 255, overallAmplitude = Fin 255,
                 bass = Fin 255, mid = Fin 255, treble = Fin 255\<rparr>"
  by (simp add: loudAudio_def analyse_bands sum_replicate_255 num_def)

lemma loud_surface_inputs:
  assumes "faudio f = loudAudio" "ftarget f = (Fin 0, Fin 0)"
  shows "surfaceInputsOf (fconfig f) (faudio f) (frame three f (initScene three c g))
           = \<lparr>stime = Fin 0.005, ssensitivity = sensitivity (fconfig f),
              sdata = replicate 256 255, smood = Fin 0.03, smouse = (Fin 0, Fin 0)\<rparr>"
  using assms
  by (simp add: surfaceInputsOf_def frame_def animate_timeRef animate_uMood animate_mouseRef
      loudAudio_eq initScene_def nextMoodRef_def currentEnergy_def moodOf_def lerp1_def)

lemma loud_displacement:
  "\<exists>n. surfaceDisplacement
          \<lparr>stime = Fin 0.005, ssensitivity = Fin se, sdata = replicate 256 255,
           smood = Fin 0.03, smouse = (Fin 0, Fin 0)\<rparr> 0 (Fin x) (Fin 0) (Fin 0)
        = Fin (1 + 0.5 * se + n * 0.006) \<and> - 3 \<le> n \<and> n \<le> 3"
proof -
  let ?n = "noiseR (x * 0.2 + 0.005) 0.005 0"
  have "surfaceDisplacement
          \<lparr>stime = Fin 0.005, ssensitivity = Fin se, sdata = replicate 256 255,
           smood = Fin 0.03, smouse = (Fin 0, Fin 0)\<rparr> 0 (Fin x) (Fin 0) (Fin 0)
        = Fin (1 + 0.5 * se + ?n * 0.006)"
    by (simp add: surfaceDisplacement_def Let_def freqVal_def num_def simpleNoise_Fin)
  then show ?thesis using noiseR_ge [of "x * 0.2 + 0.005" "0.005" 0] noiseR_le [of "x * 0.2 + 0.005" "0.005" 0]
    by blast
qed

lemma centre_mouseFactor:
  assumes "0 \<le> x"
  shows "mouseFactor \<lparr>stime = t, ssensitivity = se, sdata = d, smood = m, smouse = (Fin 0, Fin 0)\<rparr>
           (Fin x) (Fin 0) = (if x < 8 then Fin ((1 - x / 8) * 2) else Fin 0)"
proof -
  have "sqrt (x * x) = x" using assms by simp
  then show ?thesis by (simp add: mouseFactor_def Let_def pow2_def not_less)
qed

text \<open>
  Claim C7, as stated, fails: the sensitivity comes from the configuration unchecked,
  and with a negative one the scalar can be negative, which mirrors the vertex through
  the centre instead of keeping its direction. In the first frame with the sensitivity
  \<open>- 4\<close>, a spectrum whose bins are all 255 and the pointer at the centre, the scalar
  \<open>v\<close> of the rest vertex \<open>(10, 0, 0)\<close> lies between \<open>- 1.018\<close> and \<open>- 0.982\<close>, the
  live \<open>x\<close> coordinate is \<open>10 v\<close> converted to single precision, and it is negative.
\<close>

theorem surface_mirrored_counterexample:
  "heap (frame plainThree mirrorFrame (initScene plainThree DEFAULT_CONFIG [Fin 10, Fin 0, Fin 0]))
     (originalPositionsRef
        (frame plainThree mirrorFrame (initScene plainThree DEFAULT_CONFIG [Fin 10, Fin 0, Fin 0])))
     ! 0 = Fin 10 \<and>
   (\<exists>v. heap (frame plainThree mirrorFrame
               (initScene plainThree DEFAULT_CONFIG [Fin 10, Fin 0, Fin 0]))
            (positionArray (frame plainThree mirrorFrame
               (initScene plainThree DEFAULT_CONFIG [Fin 10, Fin 0, Fin 0]))) ! 0
          = fround plainThree (Fin (10 * v)) \<and> - 1.018 \<le> v \<and> v \<le> - 0.982) \<and>
   heap (frame plainThree mirrorFrame (initScene plainThree DEFAULT_CONFIG [Fin 10, Fin 0, Fin 0]))
     (positionArray
        (frame plainThree mirrorFrame (initScene plainThree DEFAULT_CONFIG [Fin 10, Fin 0, Fin 0])))
     ! 0 < Fin 0"
proof -
  let ?g = "[Fin 10, Fin 0, Fin 0]"
  let ?s' = "frame plainThree mirrorFrame (initScene plainThree DEFAULT_CONFIG ?g)"
  have b: "buffersOk ?g (initScene plainThree DEFAULT_CONFIG ?g)" by (rule initScene_buffersOk)
  then have b': "positionArray ?s' = 0" "originalPositionsRef ?s' = 1" "heap ?s' 1 = ?g"
    using frame_buffersOk [OF b, of plainThree mirrorFrame] by (simp_all add: buffersOk_def)
  let ?si = "\<lparr>stime = Fin 0.005, ssensitivity = Fin (- 4), sdata = replicate 256 255,
               smood = Fin 0.03, smouse = (Fin 0, Fin 0)\<rparr>"
  have si: "surfaceInputsOf (fconfig mirrorFrame) (faudio mirrorFrame) ?s' = ?si"
    by (subst loud_surface_inputs) (simp_all add: mirrorFrame_def)
  obtain n where n: "surfaceDisplacement ?si 0 (Fin 10) (Fin 0) (Fin 0)
                       = Fin (1 + 0.5 * (- 4) + n * 0.006)" "- 3 \<le> n" "n \<le> 3"
    using loud_displacement [of "- 4" 10] by blast
  have mf: "mouseFactor ?si (Fin 10) (Fin 0) = Fin 0"
    by (subst centre_mouseFactor) simp_all
  have "heap ?s' 0 ! (3 * 0 + 0)
          = scaledVertex (fround plainThree)
              (surfaceInputsOf (fconfig mirrorFrame) (faudio mirrorFrame) ?s') ?g 0 0"
    using b by (rule frame_surface_vertex) (simp_all add: mirrorFrame_def)
  also have "\<dots> = fround plainThree (Fin 10 * (surfaceDisplacement ?si 0 (Fin 10) (Fin 0) (Fin 0)
                                                  + mouseFactor ?si (Fin 10) (Fin 0)))"
    unfolding si by (simp add: scaledVertex_def totalScale_def readAt_def)
  also have "\<dots> = fround plainThree (Fin (10 * (1 + 0.5 * (- 4) + n * 0.006 + 0)))"
    unfolding n(1) mf by simp
  finally have e: "heap ?s' 0 ! 0 = fround plainThree (Fin (10 * (1 + 0.5 * (- 4) + n * 0.006 + 0)))"
    by simp
  have r: "- 1.018 \<le> 1 + 0.5 * (- 4) + n * 0.006 + 0" "1 + 0.5 * (- 4) + n * 0.006 + 0 \<le> - 0.982"
    using n(2,3) by simp_all
  from e r have 1: "\<exists>v. heap ?s' 0 ! 0 = fround plainThree (Fin (10 * v))
                         \<and> - 1.018 \<le> v \<and> v \<le> - 0.982"
    by blast
  have "10 * (1 + 0.5 * (- 4) + n * 0.006 + 0) < 0" using r(2) by simp
  with e have 2: "heap ?s' 0 ! 0 < Fin 0" by (simp add: plainThree_def)
  show ?thesis using b' 1 2 by simp
qed

text \<open>
  Claim C7, amended. Let \<open>s\<close> be the scene after any sequence of frames from the
  initial scene with geometry \<open>g\<close>, and \<open>s'\<close> the scene after one more frame in
  Surface mode. The rest positions are \<open>g\<close> in \<open>s\<close> and in \<open>s'\<close>: no frame writes
  them, and the live array is another buffer. Every coordinate of live vertex \<open>j\<close> is
  the same coordinate of the rest vertex times one scalar, the sum of \<^verbatim>\<open>displacement\<close>
  and \<^verbatim>\<open>mouseFactor\<close> of that vertex, converted to single precision by the store.
  When the sensitivity is finite and not negative, the frequency data are not empty,
  the mood is within 0 and 1 and the rest vertex is finite, that scalar is positive,
  so the vertex is not mirrored through the centre.
\<close>

theorem surface_rest_and_scale:
  assumes "s = frames three fs (initScene three c g)" "s' = frame three f s"
    and "si = surfaceInputsOf (fconfig f) (faudio f) s'"
    and "mode (fconfig f) = Surface" "j < length g div 3" "k < 3"
  shows "heap s (originalPositionsRef s) = g \<and>
         heap s' (originalPositionsRef s') = g \<and>
         positionArray s' \<noteq> originalPositionsRef s' \<and>
         heap s' (positionArray s') ! (3 * j + k)
           = fround three
               (g ! (3 * j + k)
                  * (surfaceDisplacement si j (g ! (3 * j)) (g ! (3 * j + 1)) (g ! (3 * j + 2))
                     + mouseFactor si (g ! (3 * j)) (g ! (3 * j + 1)))) \<and>
         (surfaceInputsOk si \<and> isFinite (g ! (3 * j)) \<and> isFinite (g ! (3 * j + 1))
            \<and> isFinite (g ! (3 * j + 2)) \<longrightarrow>
            Fin 0 < surfaceDisplacement si j (g ! (3 * j)) (g ! (3 * j + 1)) (g ! (3 * j + 2))
                      + mouseFactor si (g ! (3 * j)) (g ! (3 * j + 1)))"
proof -
  have b: "buffersOk g s" unfolding assms(1) by (intro frames_buffersOk initScene_buffersOk)
  then have b': "buffersOk g s'" unfolding assms(2) by (rule frame_buffersOk)
  have idx: "3 * j + 2 < length g" "3 * j + 1 < length g" "3 * j < length g" "3 * j + k < length g"
    using assms(5,6) by simp_all
  have v: "heap s' 0 ! (3 * j + k) = scaledVertex (fround three) si g j k"
    unfolding assms(2,3) using b assms(4,5,6) by (rule frame_surface_vertex)
  have 4: "heap s' (positionArray s') ! (3 * j + k)
           = fround three
               (g ! (3 * j + k)
                  * (surfaceDisplacement si j (g ! (3 * j)) (g ! (3 * j + 1)) (g ! (3 * j + 2))
                     + mouseFactor si (g ! (3 * j)) (g ! (3 * j + 1))))"
    using v b' idx by (simp add: buffersOk_def scaledVertex_def readAt_def totalScale_def)
  have t: "isFinite (stime si)"
    using b' unfolding assms(3) by (simp add: buffersOk_def surfaceInputsOf_def)
  have 5: "Fin 0 < surfaceDisplacement si j (g ! (3 * j)) (g ! (3 * j + 1)) (g ! (3 * j + 2))
                     + mouseFactor si (g ! (3 * j)) (g ! (3 * j + 1))"
    if "surfaceInputsOk si" "isFinite (g ! (3 * j))" "isFinite (g ! (3 * j + 1))"
      "isFinite (g ! (3 * j + 2))"
    using that(1) t that(2,3,4) by (rule totalScale_positive)
  show ?thesis using b b' 4 5 by (simp add: buffersOk_def)
qed

theorem surface_rest_and_scale_witness:
  "mode (fconfig surfaceFrame) = Surface \<and>
   (0 :: nat) < length [Fin 4, Fin 0, Fin 0] div 3 \<and>
   heap (frame plainThree surfaceFrame (initScene plainThree DEFAULT_CONFIG [Fin 4, Fin 0, Fin 0]))
     (originalPositionsRef
        (frame plainThree surfaceFrame (initScene plainThree DEFAULT_CONFIG [Fin 4, Fin 0, Fin 0])))
     = [Fin 4, Fin 0, Fin 0] \<and>
   surfaceInputsOk (surfaceInputsOf (fconfig surfaceFrame) (faudio surfaceFrame)
      (frame plainThree surfaceFrame (initScene plainThree DEFAULT_CONFIG [Fin 4, Fin 0, Fin 0]))) \<and>
   isFinite (Fin 4) \<and> isFinite (Fin 0) \<and>
   (\<exists>v. heap (frame plainThree surfaceFrame
               (initScene plainThree DEFAULT_CONFIG [Fin 4, Fin 0, Fin 0]))
            (positionArray (frame plainThree surfaceFrame
               (initScene plainThree DEFAULT_CONFIG [Fin 4, Fin 0, Fin 0]))) ! 0
          = fround plainThree (Fin (4 * v))
        \<and> 2.73 < v \<and> v < 2.77)"
proof -
  let ?g = "[Fin 4, Fin 0, Fin 0]"
  let ?s = "frames plainThree [] (initScene plainThree DEFAULT_CONFIG ?g)"
  let ?s' = "frame plainThree surfaceFrame ?s"
  let ?si = "surfaceInputsOf (fconfig surfaceFrame) (faudio surfaceFrame) ?s'"
  have h4: "mode (fconfig surfaceFrame) = Surface" by (simp add: surfaceFrame_def)
  have h5: "(0 :: nat) < length ?g div 3" by simp
  have h6: "(0 :: nat) < 3" by simp
  let ?SI = "\<lparr>stime = Fin 0.005, ssensitivity = Fin 1.5, sdata = replicate 256 255,
               smood = Fin 0.03, smouse = (Fin 0, Fin 0)\<rparr>"
  have si: "?si = ?SI"
    unfolding frames.simps
    by (subst loud_surface_inputs) (simp_all add: surfaceFrame_def DEFAULT_CONFIG_def)
  have ok: "surfaceInputsOk ?si"
    unfolding si by (simp add: surfaceInputsOk_def nonNegative_def inUnit_def)
  obtain n where n: "surfaceDisplacement ?SI 0 (Fin 4) (Fin 0) (Fin 0)
                       = Fin (1 + 0.5 * 1.5 + n * 0.006)" "- 3 \<le> n" "n \<le> 3"
    using loud_displacement [of "1.5" 4] by blast
  have mf: "mouseFactor ?SI (Fin 4) (Fin 0) = Fin 1"
    by (subst centre_mouseFactor) simp_all
  note th = surface_rest_and_scale [OF refl refl refl h4 h5 h6, of plainThree "[]" DEFAULT_CONFIG]
  from th have 1: "heap ?s' (originalPositionsRef ?s') = ?g" by blast
  from th have "heap ?s' (positionArray ?s') ! (3 * 0 + 0)
                  = fround plainThree
                      (?g ! (3 * 0 + 0)
                         * (surfaceDisplacement ?si 0 (?g ! (3 * 0)) (?g ! (3 * 0 + 1)) (?g ! (3 * 0 + 2))
                            + mouseFactor ?si (?g ! (3 * 0)) (?g ! (3 * 0 + 1))))"
    by blast
  then have "heap ?s' (positionArray ?s') ! 0
               = fround plainThree (Fin 4 * (surfaceDisplacement ?SI 0 (Fin 4) (Fin 0) (Fin 0)
                                              + mouseFactor ?SI (Fin 4) (Fin 0)))"
    unfolding si by simp
  also have "\<dots> = fround plainThree (Fin (4 * (1 + 0.5 * 1.5 + n * 0.006 + 1)))"
    unfolding n(1) mf by simp
  finally have e: "heap ?s' (positionArray ?s') ! 0
                     = fround plainThree (Fin (4 * (1 + 0.5 * 1.5 + n * 0.006 + 1)))" .
  have "2.73 < 1 + 0.5 * 1.5 + n * 0.006 + 1" "1 + 0.5 * 1.5 + n * 0.006 + 1 < 2.77"
    using n(2,3) by simp_all
  with e have 2: "\<exists>v. heap ?s' (positionArray ?s') ! 0 = fround plainThree (Fin (4 * v))
                         \<and> 2.73 < v \<and> v < 2.77"
    by blast
  have 0: "?s = initScene plainThree DEFAULT_CONFIG ?g" by simp
  show ?thesis using h4 h5 ok 1 2 unfolding 0 by simp
qed

section \<open>Facts about the random values\<close>

lemma modePosition_rnd:
  assumes "mode (pcfg p) \<noteq> Grid"
  shows "modePosition p rnd count i nf sc = modePosition p rnd' count i nf sc"
  using assms by (simp add: modePosition_def Let_def)

lemma particle_rnd:
  assumes "mode (pcfg p) \<noteq> Grid"
  shows "particle p rnd count i = particle p rnd' count i"
  by (simp add: particle_def modeResult_def Let_def modePosition_rnd [OF assms, of rnd _ _ _ _ rnd'])

lemma updateParticles_rnd:
  assumes "mode (pcfg p) \<noteq> Grid"
  shows "updateParticles mesh p rnd = updateParticles mesh p rnd'"
  by (simp add: updateParticles_def Let_def
      particle_rnd [OF assms, of "\<lambda>k. rnd (3 * i + k)" _ _ "\<lambda>k. rnd' (3 * i + k)" for i])

lemma cameraTarget_rnd:
  "cameraTarget ca t mouse (Fin 0) (Fin 0) r = cameraTarget ca t mouse (Fin 0) (Fin 0) r'"
  by (simp add: cameraTarget_def Let_def)

text \<open>With mood and normalized bass at 1 the camera target does depend on the random value.\<close>

lemma cameraTarget_depends_on_random:
  "cameraTarget (Fin 0) (Fin 0) (Fin 0, Fin 0) (Fin 1) (Fin 1) 0
     \<noteq> cameraTarget (Fin 0) (Fin 0) (Fin 0, Fin 0) (Fin 1) (Fin 1) (1 / 2)"
  by (simp add: cameraTarget_def Let_def)

lemma zero_signals:
  "nextSmoothedBass (zeroAudio n) (Fin 0) = Fin 0"
  "normalizedBassOf (Fin 0) = Fin 0"
  "nextMoodRef (zeroAudio n) (Fin 0) = Fin 0"
  "moodOf (Fin 0) = Fin 0"
  by (simp_all add: nextSmoothedBass_def normalizedBassOf_def nextMoodRef_def moodOf_def
      currentEnergy_def zeroAudio_def)

text \<open>
  Claim C8. From any scene whose bass and mood trackers are at their initial value 0,
  one frame with the default configuration (Orbit mode) and an all-zero spectrum
  gives the same scene, so the same instances, colours and camera position,
  whatever values \<^verbatim>\<open>Math.random()\<close> returns.
\<close>

theorem default_tick_deterministic:
  assumes "smoothedBassRef s = Fin 0" "moodRef s = Fin 0"
  shows "animate three DEFAULT_CONFIG (zeroAudio n) rnd s
           = animate three DEFAULT_CONFIG (zeroAudio n) rnd' s"
proof -
  have m: "mode DEFAULT_CONFIG \<noteq> Surface" "mode DEFAULT_CONFIG \<noteq> Grid"
    by (simp_all add: DEFAULT_CONFIG_def)
  have u: "updateParticles mesh p (\<lambda>k. rnd (Suc k)) = updateParticles mesh p (\<lambda>k. rnd' (Suc k))"
    if "pcfg p = DEFAULT_CONFIG" for mesh p
    using that m(2) by (intro updateParticles_rnd) simp
  show ?thesis
    unfolding animate_def Let_def assms zero_signals
    using m(1) by (simp add: cameraTarget_rnd [of _ _ _ "rnd 0" "rnd' 0"] u)
qed

theorem default_tick_deterministic_witness:
  "smoothedBassRef (initScene plainThree DEFAULT_CONFIG []) = Fin 0 \<and>
   moodRef (initScene plainThree DEFAULT_CONFIG []) = Fin 0 \<and>
   animate plainThree DEFAULT_CONFIG (zeroAudio 128) (\<lambda>k. 0) (initScene plainThree DEFAULT_CONFIG [])
     = animate plainThree DEFAULT_CONFIG (zeroAudio 128) (\<lambda>k. 1 / 2)
         (initScene plainThree DEFAULT_CONFIG [])"
proof -
  have h1: "smoothedBassRef (initScene plainThree DEFAULT_CONFIG []) = Fin 0"
    and h2: "moodRef (initScene plainThree DEFAULT_CONFIG []) = Fin 0"
    by (simp_all add: initScene_def)
  show ?thesis
    using h1 h2 default_tick_deterministic [OF h1 h2, of plainThree 128 "\<lambda>k. 0" "\<lambda>k. 1 / 2"]
    by blast
qed

end
